theory Spec2Isabelle
  imports Complex_Main
begin

section \<open>The shared value types of fast-fhir: \<^verbatim>\<open>fhir_datatypes.c\<close>\<close>

text \<open>
  This theory embeds \<^verbatim>\<open>src/fast_fhir/ext/fhir_datatypes.c\<close>: the lexical
  predicates (\<^verbatim>\<open>fhir_validate_*\<close>), the parsers from a cJSON tree
  (\<^verbatim>\<open>fhir_parse_*\<close>) and the serializers to one (\<^verbatim>\<open>fhir_*_to_json\<close>).
  A last section of definitions models the reference counting of resources, whose
  implementation is not among the sources, from the specification.

  Conventions of the embedding.
  \<^item> A pointer is an \<open>option\<close>: \<open>None\<close> is \<^verbatim>\<open>NULL\<close>.
  \<^item> A C string is the list of its characters before the terminating NUL; the
    terminator is the character read at index \<open>length s\<close>, and any index beyond it lies
    outside the string.
  \<^item> Behaviour that C leaves undefined is a value of type \<open>fault\<close>: a function that
    indexes memory or converts a \<^verbatim>\<open>double\<close> to \<^verbatim>\<open>int\<close> returns
    \<open>fault + 'a\<close>, and \<open>Inl\<close> says which undefined operation it would perform.
  \<^item> \<^verbatim>\<open>malloc\<close> and \<^verbatim>\<open>calloc\<close> succeed. The branches of the source
    that only handle a failed allocation are therefore not reachable in the model; every
    statement below is a statement about runs in which memory is available.
\<close>

datatype fault = OutOfBounds | NullDereference | CastOutOfRange | UseAfterRelease

subsection \<open>C strings and \<^verbatim>\<open>ctype.h\<close>\<close>

text \<open>
  \<^verbatim>\<open>s[i]\<close> for a string \<open>s\<close>: the character, the terminator at \<open>length s\<close>, and a
  read outside the object beyond that. The continuation receives the character read.
\<close>

definition NUL :: char where
  "NUL = CHR 0x00"

definition read_char :: "string \<Rightarrow> nat \<Rightarrow> (char \<Rightarrow> fault + 'a) \<Rightarrow> fault + 'a" where
  "read_char s i k =
     (if i < length s then k (s ! i)
      else if i = length s then k NUL
      else Inl OutOfBounds)"

text \<open>
  \<^verbatim>\<open>isdigit\<close> and \<^verbatim>\<open>isspace\<close> in the C locale. (The source passes a plain
  \<^verbatim>\<open>char\<close>; for bytes above 127 both are false.)
\<close>

definition isdigit :: "char \<Rightarrow> bool" where
  "isdigit c = (48 \<le> (of_char c :: nat) \<and> (of_char c :: nat) \<le> 57)"

definition isspace :: "char \<Rightarrow> bool" where
  "isspace c = ((of_char c :: nat) = 32 \<or> (9 \<le> (of_char c :: nat) \<and> (of_char c :: nat) \<le> 13))"

text \<open>\<^verbatim>\<open>c - '0'\<close>, computed in \<^verbatim>\<open>int\<close>.\<close>

definition minus_zero :: "char \<Rightarrow> int" where
  "minus_zero c = int (of_char c) - 48"

text \<open>
  \<^verbatim>\<open>strlen\<close>, \<^verbatim>\<open>strchr(s, c) != NULL\<close> for a character \<open>c\<close> other than NUL, and
  \<^verbatim>\<open>strncmp(a, b, n) == 0\<close>: the library functions stop at the terminator, so they
  are functions of the characters before it.
\<close>

definition strlen :: "string \<Rightarrow> nat" where
  "strlen s = length s"

definition strchr_found :: "string \<Rightarrow> char \<Rightarrow> bool" where
  "strchr_found s c = (c \<in> set s)"

definition strncmp_eq :: "string \<Rightarrow> string \<Rightarrow> nat \<Rightarrow> bool" where
  "strncmp_eq a b n = (take n a = take n b)"

subsection \<open>The format predicates\<close>

definition fhir_validate_uri :: "string option \<Rightarrow> bool" where
  "fhir_validate_uri p =
     (case p of
        None \<Rightarrow> False
      | Some uri \<Rightarrow> strchr_found uri (CHR '':''))"

definition fhir_validate_url :: "string option \<Rightarrow> bool" where
  "fhir_validate_url p =
     (case p of
        None \<Rightarrow> False
      | Some url \<Rightarrow> strncmp_eq url ''http://'' 7 \<or> strncmp_eq url ''https://'' 8)"

text \<open>
  The year loop of \<^verbatim>\<open>fhir_validate_date\<close>,
  \<^verbatim>\<open>for (int i = 0; i < 4; i++) if (!isdigit(date[i])) return false;\<close>.
  \<open>Inr False\<close> is the early \<^verbatim>\<open>return false\<close>, \<open>Inr True\<close> is falling out of the loop.
\<close>

function date_year_loop :: "string \<Rightarrow> nat \<Rightarrow> fault + bool" where
  "date_year_loop date i =
     (if i < 4 then
        (if length date < i then Inl OutOfBounds
         else if \<not> isdigit (if i < length date then date ! i else NUL) then Inr False
         else date_year_loop date (i + 1))
      else Inr True)"
  by pat_completeness auto
termination
  by (relation "measure (\<lambda>(date, i). 4 - i)") auto

declare date_year_loop.simps [simp del]

text \<open>The two-digit, range-checked fields \<^verbatim>\<open>-MM\<close> at offset 4 and \<^verbatim>\<open>-DD\<close> at offset 7.\<close>

definition date_month :: "string \<Rightarrow> fault + bool" where
  "date_month date =
     read_char date 4 (\<lambda>c4.
       if c4 \<noteq> CHR ''-'' then Inr False
       else read_char date 5 (\<lambda>c5.
         if \<not> isdigit c5 then Inr False
         else read_char date 6 (\<lambda>c6.
           if \<not> isdigit c6 then Inr False
           else (let month = minus_zero c5 * 10 + minus_zero c6
                 in if month < 1 \<or> month > 12 then Inr False else Inr True))))"

definition date_day :: "string \<Rightarrow> fault + bool" where
  "date_day date =
     read_char date 7 (\<lambda>c7.
       if c7 \<noteq> CHR ''-'' then Inr False
       else read_char date 8 (\<lambda>c8.
         if \<not> isdigit c8 then Inr False
         else read_char date 9 (\<lambda>c9.
           if \<not> isdigit c9 then Inr False
           else (let day = minus_zero c8 * 10 + minus_zero c9
                 in if day < 1 \<or> day > 31 then Inr False else Inr True))))"

definition fhir_validate_date :: "string option \<Rightarrow> fault + bool" where
  "fhir_validate_date p =
     (case p of
        None \<Rightarrow> Inr False
      | Some date \<Rightarrow>
          (let len = strlen date in
           if len \<noteq> 4 \<and> len \<noteq> 7 \<and> len \<noteq> 10 then Inr False
           else
             (case date_year_loop date 0 of
                Inl e \<Rightarrow> Inl e
              | Inr False \<Rightarrow> Inr False
              | Inr True \<Rightarrow>
                  (case (if len \<ge> 7 then date_month date else Inr True) of
                     Inl e \<Rightarrow> Inl e
                   | Inr False \<Rightarrow> Inr False
                   | Inr True \<Rightarrow>
                       (case (if len = 10 then date_day date else Inr True) of
                          Inl e \<Rightarrow> Inl e
                        | Inr False \<Rightarrow> Inr False
                        | Inr True \<Rightarrow> Inr True)))))"

definition fhir_validate_time :: "string option \<Rightarrow> fault + bool" where
  "fhir_validate_time p =
     (case p of
        None \<Rightarrow> Inr False
      | Some time \<Rightarrow>
          (let len = strlen time in
           if len < 8 then Inr False
           else
             read_char time 0 (\<lambda>t0. if \<not> isdigit t0 then Inr False else
             read_char time 1 (\<lambda>t1. if \<not> isdigit t1 then Inr False else
             read_char time 2 (\<lambda>t2. if t2 \<noteq> CHR '':'' then Inr False else
             read_char time 3 (\<lambda>t3. if \<not> isdigit t3 then Inr False else
             read_char time 4 (\<lambda>t4. if \<not> isdigit t4 then Inr False else
             read_char time 5 (\<lambda>t5. if t5 \<noteq> CHR '':'' then Inr False else
             read_char time 6 (\<lambda>t6. if \<not> isdigit t6 then Inr False else
             read_char time 7 (\<lambda>t7. if \<not> isdigit t7 then Inr False else
               (let hour = minus_zero t0 * 10 + minus_zero t1;
                    minute = minus_zero t3 * 10 + minus_zero t4;
                    second = minus_zero t6 * 10 + minus_zero t7
                in if hour > 23 \<or> minute > 59 \<or> second > 59 then Inr False
                   else Inr True)))))))))))"

text \<open>
  The loop of \<^verbatim>\<open>fhir_validate_code\<close>,
  \<^verbatim>\<open>for (size_t i = 0; i < len; i++) if (isspace(code[i])) return false;\<close>.
\<close>

function code_loop :: "string \<Rightarrow> nat \<Rightarrow> nat \<Rightarrow> fault + bool" where
  "code_loop code len i =
     (if i < len then
        (if length code < i then Inl OutOfBounds
         else if isspace (if i < length code then code ! i else NUL) then Inr False
         else code_loop code len (i + 1))
      else Inr True)"
  by pat_completeness auto
termination
  by (relation "measure (\<lambda>(code, len, i). len - i)") auto

declare code_loop.simps [simp del]

definition fhir_validate_code :: "string option \<Rightarrow> fault + bool" where
  "fhir_validate_code p =
     (case p of
        None \<Rightarrow> Inr False
      | Some code \<Rightarrow>
          (let len = strlen code in
           if len = 0 then Inr False
           else
             (case code_loop code len 0 of
                Inl e \<Rightarrow> Inl e
              | Inr False \<Rightarrow> Inr False
              | Inr True \<Rightarrow> Inr True)))"

subsection \<open>The formats as the specification words them\<close>

text \<open>
  These predicates are written from the specification's sentences, not from the code;
  the theorems below compare them with the functions above.
\<close>

definition digits :: "string \<Rightarrow> bool" where
  "digits ds = list_all isdigit ds"

definition two_digit_value :: "string \<Rightarrow> nat" where
  "two_digit_value ds =
     (case ds of [a, b] \<Rightarrow> (of_char a - 48) * 10 + (of_char b - 48) | _ \<Rightarrow> 0)"

definition two_digits_between :: "string \<Rightarrow> nat \<Rightarrow> nat \<Rightarrow> bool" where
  "two_digits_between ds lo hi =
     (length ds = 2 \<and> digits ds \<and> lo \<le> two_digit_value ds \<and> two_digit_value ds \<le> hi)"

text \<open>\<^verbatim>\<open>YYYY\<close>, \<^verbatim>\<open>YYYY-MM\<close> or \<^verbatim>\<open>YYYY-MM-DD\<close>, month 01 to 12, day 01 to 31.\<close>

definition date_shape :: "string \<Rightarrow> bool" where
  "date_shape s =
     ((length s = 4 \<and> digits s) \<or>
      (length s = 7 \<and> digits (take 4 s) \<and> s ! 4 = CHR ''-'' \<and>
         two_digits_between (drop 5 s) 1 12) \<or>
      (length s = 10 \<and> digits (take 4 s) \<and> s ! 4 = CHR ''-'' \<and>
         two_digits_between (take 2 (drop 5 s)) 1 12 \<and> s ! 7 = CHR ''-'' \<and>
         two_digits_between (drop 8 s) 1 31))"

text \<open>
  \<^verbatim>\<open>HH:MM:SS\<close> with hour at most 23 and minute and second at most 59, optionally
  followed by a fractional part: a dot and at least one digit.
\<close>

definition hms_shape :: "string \<Rightarrow> bool" where
  "hms_shape s =
     (length s = 8 \<and>
      two_digits_between (take 2 s) 0 23 \<and> s ! 2 = CHR '':'' \<and>
      two_digits_between (take 2 (drop 3 s)) 0 59 \<and> s ! 5 = CHR '':'' \<and>
      two_digits_between (drop 6 s) 0 59)"

definition fraction_shape :: "string \<Rightarrow> bool" where
  "fraction_shape f =
     (case f of [] \<Rightarrow> False | c # ds \<Rightarrow> c = CHR ''.'' \<and> ds \<noteq> [] \<and> digits ds)"

definition time_shape :: "string \<Rightarrow> bool" where
  "time_shape s = (hms_shape (take 8 s) \<and> (drop 8 s = [] \<or> fraction_shape (drop 8 s)))"

subsection \<open>The document tree\<close>

text \<open>
  The parsers and serializers work on the tree of the cJSON library, which is not part
  of the repository; they use it through the narrow interface the specification lists
  (field lookup by case-sensitive key, type predicates, array iteration, construction).
  A node carries one of cJSON's type tags. The members of an object are kept in order,
  with their keys, and a key may occur twice: lookup returns the first member with the
  key, and adding a member appends it.

  A \<^verbatim>\<open>double\<close> is a rational or one of the three special values; every finite
  \<^verbatim>\<open>double\<close> is a rational, so a statement about all \<open>cdouble\<close> covers all doubles.
\<close>

datatype cdouble = Finite rat | PlusInfinity | MinusInfinity | NotANumber

datatype cJSON =
    cJSON_Invalid
  | cJSON_False
  | cJSON_True
  | cJSON_NULL
  | cJSON_Number cdouble
  | cJSON_String string
  | cJSON_Array "cJSON list"
  | cJSON_Object "(string \<times> cJSON) list"
  | cJSON_Raw string

fun cJSON_IsString :: "cJSON option \<Rightarrow> bool" where
  "cJSON_IsString (Some (cJSON_String s)) = True"
| "cJSON_IsString item = False"

fun cJSON_IsBool :: "cJSON option \<Rightarrow> bool" where
  "cJSON_IsBool (Some cJSON_True) = True"
| "cJSON_IsBool (Some cJSON_False) = True"
| "cJSON_IsBool item = False"

fun cJSON_IsTrue :: "cJSON option \<Rightarrow> bool" where
  "cJSON_IsTrue (Some cJSON_True) = True"
| "cJSON_IsTrue item = False"

fun cJSON_IsNumber :: "cJSON option \<Rightarrow> bool" where
  "cJSON_IsNumber (Some (cJSON_Number d)) = True"
| "cJSON_IsNumber item = False"

fun cJSON_IsObject :: "cJSON option \<Rightarrow> bool" where
  "cJSON_IsObject (Some (cJSON_Object members)) = True"
| "cJSON_IsObject item = False"

fun cJSON_IsArray :: "cJSON option \<Rightarrow> bool" where
  "cJSON_IsArray (Some (cJSON_Array elements)) = True"
| "cJSON_IsArray item = False"

text \<open>
  The fields \<^verbatim>\<open>item->valuestring\<close> and \<^verbatim>\<open>item->valuedouble\<close>. The source reads
  them only after the matching type predicate has held; a node of another type holds
  a null string and the number zero.
\<close>

fun valuestring :: "cJSON option \<Rightarrow> string option" where
  "valuestring (Some (cJSON_String s)) = Some s"
| "valuestring (Some (cJSON_Raw s)) = Some s"
| "valuestring item = None"

fun valuedouble :: "cJSON option \<Rightarrow> cdouble" where
  "valuedouble (Some (cJSON_Number d)) = d"
| "valuedouble item = Finite 0"

fun cJSON_GetObjectItemCaseSensitive :: "cJSON option \<Rightarrow> string \<Rightarrow> cJSON option" where
  "cJSON_GetObjectItemCaseSensitive (Some (cJSON_Object members)) key = map_of members key"
| "cJSON_GetObjectItemCaseSensitive item key = None"

text \<open>The children visited by \<^verbatim>\<open>cJSON_ArrayForEach\<close>.\<close>

fun children :: "cJSON option \<Rightarrow> cJSON list" where
  "children (Some (cJSON_Array elements)) = elements"
| "children (Some (cJSON_Object members)) = map snd members"
| "children item = []"

text \<open>
  \<^verbatim>\<open>cJSON_GetArraySize\<close> counts the children in a \<^verbatim>\<open>size_t\<close> and returns the count
  converted to \<^verbatim>\<open>int\<close>. The conversion keeps the low 32 bits and reads them as a
  two's complement number, so the result is the number of children only while that is
  at most 2147483647; it is negative or too small beyond.
\<close>

definition int_of_size :: "nat \<Rightarrow> int" where
  "int_of_size n =
     (let low = int n mod 4294967296
      in if low < 2147483648 then low else low - 4294967296)"

definition cJSON_GetArraySize :: "cJSON option \<Rightarrow> int" where
  "cJSON_GetArraySize array = int_of_size (length (children array))"

definition cJSON_CreateObject :: "cJSON option" where
  "cJSON_CreateObject = Some (cJSON_Object [])"

fun cJSON_AddItemToObject :: "cJSON \<Rightarrow> string \<Rightarrow> cJSON \<Rightarrow> cJSON" where
  "cJSON_AddItemToObject (cJSON_Object members) key item = cJSON_Object (members @ [(key, item)])"
| "cJSON_AddItemToObject object key item = object"

definition cJSON_AddStringToObject :: "cJSON \<Rightarrow> string \<Rightarrow> string \<Rightarrow> cJSON" where
  "cJSON_AddStringToObject object key s = cJSON_AddItemToObject object key (cJSON_String s)"

definition cJSON_AddBoolToObject :: "cJSON \<Rightarrow> string \<Rightarrow> bool \<Rightarrow> cJSON" where
  "cJSON_AddBoolToObject object key b =
     cJSON_AddItemToObject object key (if b then cJSON_True else cJSON_False)"

definition cJSON_AddNumberToObject :: "cJSON \<Rightarrow> string \<Rightarrow> cdouble \<Rightarrow> cJSON" where
  "cJSON_AddNumberToObject object key d = cJSON_AddItemToObject object key (cJSON_Number d)"

text \<open>The keys of an object node, in order.\<close>

fun member_keys :: "cJSON option \<Rightarrow> string list" where
  "member_keys (Some (cJSON_Object members)) = map fst members"
| "member_keys item = []"

subsection \<open>Memory\<close>

definition fhir_string_duplicate :: "string option \<Rightarrow> string option" where
  "fhir_string_duplicate str = (case str of None \<Rightarrow> None | Some s \<Rightarrow> Some s)"

text \<open>
  \<^verbatim>\<open>calloc(n, sizeof(T*))\<close>: an array of \<open>n\<close> null pointers. Where the source passes
  an \<^verbatim>\<open>int\<close> it has tested to be positive, the argument is that number.
\<close>

definition calloc_pointers :: "nat \<Rightarrow> 'a option list option" where
  "calloc_pointers n = Some (replicate n None)"

definition fhir_string_array_create :: "nat \<Rightarrow> string option list option" where
  "fhir_string_array_create n = calloc_pointers n"

text \<open>
  \<^verbatim>\<open>array[i] = p\<close>: undefined through a null \<^verbatim>\<open>array\<close> and outside the allocated
  elements.
\<close>

definition store :: "'a list option \<Rightarrow> nat \<Rightarrow> 'a \<Rightarrow> fault + 'a list option" where
  "store array i p =
     (case array of
        None \<Rightarrow> Inl NullDereference
      | Some elements \<Rightarrow>
          if i < length elements then Inr (Some (elements[i := p])) else Inl OutOfBounds)"

subsection \<open>Primitive values\<close>

text \<open>
  The structures are declared in \<^verbatim>\<open>fhir_datatypes.h\<close>, which is not among the
  sources; each record has the fields that \<^verbatim>\<open>fhir_datatypes.c\<close> reads or writes.
  \<^verbatim>\<open>calloc\<close> zeroes every other field.
\<close>

record FHIRString =
  string_base_id :: "string option"
  string_value :: "string option"

record FHIRBoolean =
  boolean_value :: bool

record FHIRInteger =
  integer_value :: int

record FHIRDecimal =
  decimal_value :: cdouble

definition fhir_string_create :: "string option \<Rightarrow> FHIRString option" where
  "fhir_string_create v =
     Some \<lparr>string_base_id = None, string_value = fhir_string_duplicate v\<rparr>"

definition fhir_boolean_create :: "bool \<Rightarrow> FHIRBoolean option" where
  "fhir_boolean_create v = Some \<lparr>boolean_value = v\<rparr>"

definition fhir_integer_create :: "int \<Rightarrow> FHIRInteger option" where
  "fhir_integer_create v = Some \<lparr>integer_value = v\<rparr>"

definition fhir_decimal_create :: "cdouble \<Rightarrow> FHIRDecimal option" where
  "fhir_decimal_create v = Some \<lparr>decimal_value = v\<rparr>"

text \<open>
  The conversion \<^verbatim>\<open>(int)d\<close> of a \<^verbatim>\<open>double\<close>: the fractional part is discarded
  (truncation toward zero); the behaviour is undefined when the truncated value is not
  a 32-bit \<^verbatim>\<open>int\<close>, and for infinities and NaN.
\<close>

definition truncate_toward_zero :: "rat \<Rightarrow> int" where
  "truncate_toward_zero q = (if 0 \<le> q then \<lfloor>q\<rfloor> else \<lceil>q\<rceil>)"

definition double_to_int :: "cdouble \<Rightarrow> fault + int" where
  "double_to_int d =
     (case d of
        Finite q \<Rightarrow>
          (let t = truncate_toward_zero q
           in if - 2147483648 \<le> t \<and> t \<le> 2147483647 then Inr t else Inl CastOutOfRange)
      | _ \<Rightarrow> Inl CastOutOfRange)"

definition fhir_parse_string :: "cJSON option \<Rightarrow> FHIRString option" where
  "fhir_parse_string json =
     (if \<not> cJSON_IsString json then None else fhir_string_create (valuestring json))"

definition fhir_parse_boolean :: "cJSON option \<Rightarrow> FHIRBoolean option" where
  "fhir_parse_boolean json =
     (if \<not> cJSON_IsBool json then None else fhir_boolean_create (cJSON_IsTrue json))"

definition fhir_parse_integer :: "cJSON option \<Rightarrow> fault + FHIRInteger option" where
  "fhir_parse_integer json =
     (if \<not> cJSON_IsNumber json then Inr None
      else (case double_to_int (valuedouble json) of
              Inl e \<Rightarrow> Inl e
            | Inr v \<Rightarrow> Inr (fhir_integer_create v)))"

definition fhir_parse_decimal :: "cJSON option \<Rightarrow> FHIRDecimal option" where
  "fhir_parse_decimal json =
     (if \<not> cJSON_IsNumber json then None else fhir_decimal_create (valuedouble json))"

subsection \<open>Complex values\<close>

record FHIRCoding =
  coding_system :: "string option"
  coding_version :: "string option"
  coding_code :: "string option"
  coding_display :: "string option"
  coding_user_selected :: bool

text \<open>
  \<^verbatim>\<open>coding\<close> points to an array of pointers to codings, \<^verbatim>\<open>coding_count\<close> says how
  many of its elements are in use.
\<close>

record FHIRCodeableConcept =
  concept_text :: "string option"
  concept_coding :: "FHIRCoding option list option"
  concept_coding_count :: nat

record FHIRQuantity =
  quantity_value :: cdouble
  quantity_comparator :: "string option"
  quantity_unit :: "string option"
  quantity_system :: "string option"
  quantity_code :: "string option"

record FHIRHumanName =
  name_use :: "string option"
  name_text :: "string option"
  name_family :: "string option list option"
  name_family_count :: nat
  name_given :: "string option list option"
  name_given_count :: nat

definition fhir_coding_create ::
  "string option \<Rightarrow> string option \<Rightarrow> string option \<Rightarrow> FHIRCoding option" where
  "fhir_coding_create system code display =
     Some \<lparr>coding_system = fhir_string_duplicate system,
           coding_version = None,
           coding_code = fhir_string_duplicate code,
           coding_display = fhir_string_duplicate display,
           coding_user_selected = False\<rparr>"

definition fhir_codeable_concept_create :: "string option \<Rightarrow> FHIRCodeableConcept option" where
  "fhir_codeable_concept_create text_arg =
     Some \<lparr>concept_text = fhir_string_duplicate text_arg,
           concept_coding = None,
           concept_coding_count = 0\<rparr>"

definition fhir_quantity_create ::
  "cdouble \<Rightarrow> string option \<Rightarrow> string option \<Rightarrow> string option \<Rightarrow> FHIRQuantity option" where
  "fhir_quantity_create v unit system code =
     Some \<lparr>quantity_value = v,
           quantity_comparator = None,
           quantity_unit = fhir_string_duplicate unit,
           quantity_system = fhir_string_duplicate system,
           quantity_code = fhir_string_duplicate code\<rparr>"

subsection \<open>Parsing complex values\<close>

definition fhir_parse_coding :: "cJSON option \<Rightarrow> FHIRCoding option" where
  "fhir_parse_coding json =
     (if \<not> cJSON_IsObject json then None
      else
        (let system = cJSON_GetObjectItemCaseSensitive json ''system'';
             code = cJSON_GetObjectItemCaseSensitive json ''code'';
             display = cJSON_GetObjectItemCaseSensitive json ''display'';
             user_selected = cJSON_GetObjectItemCaseSensitive json ''userSelected'';
             coding = fhir_coding_create
               (if cJSON_IsString system then valuestring system else None)
               (if cJSON_IsString code then valuestring code else None)
               (if cJSON_IsString display then valuestring display else None)
         in (case coding of
               None \<Rightarrow> None
             | Some c \<Rightarrow>
                 if cJSON_IsBool user_selected
                 then Some (c\<lparr>coding_user_selected := cJSON_IsTrue user_selected\<rparr>)
                 else Some c)))"

text \<open>
  The body of \<^verbatim>\<open>cJSON_ArrayForEach(coding_item, coding_array)\<close> in
  \<^verbatim>\<open>fhir_parse_codeable_concept\<close>:
  \<^verbatim>\<open>concept->coding[concept->coding_count++] = coding\<close> for each item that parses.
\<close>

fun coding_loop :: "cJSON list \<Rightarrow> FHIRCodeableConcept \<Rightarrow> fault + FHIRCodeableConcept" where
  "coding_loop [] concept = Inr concept"
| "coding_loop (coding_item # rest) concept =
     (case fhir_parse_coding (Some coding_item) of
        None \<Rightarrow> coding_loop rest concept
      | Some coding \<Rightarrow>
          (case store (concept_coding concept) (concept_coding_count concept) (Some coding) of
             Inl e \<Rightarrow> Inl e
           | Inr array \<Rightarrow>
               coding_loop rest
                 (concept\<lparr>concept_coding := array,
                          concept_coding_count := concept_coding_count concept + 1\<rparr>)))"

definition fhir_parse_codeable_concept :: "cJSON option \<Rightarrow> fault + FHIRCodeableConcept option" where
  "fhir_parse_codeable_concept json =
     (if \<not> cJSON_IsObject json then Inr None
      else
        (let text_item = cJSON_GetObjectItemCaseSensitive json ''text'';
             coding_array = cJSON_GetObjectItemCaseSensitive json ''coding''
         in (case fhir_codeable_concept_create
                   (if cJSON_IsString text_item then valuestring text_item else None) of
               None \<Rightarrow> Inr None
             | Some concept \<Rightarrow>
                 if cJSON_IsArray coding_array then
                   (let array_size = cJSON_GetArraySize coding_array
                    in if array_size > 0 then
                         (case coding_loop (children coding_array)
                                 (concept\<lparr>concept_coding := calloc_pointers (nat array_size),
                                          concept_coding_count := 0\<rparr>) of
                            Inl e \<Rightarrow> Inl e
                          | Inr concept' \<Rightarrow> Inr (Some concept'))
                       else Inr (Some concept))
                 else Inr (Some concept))))"

definition fhir_parse_quantity :: "cJSON option \<Rightarrow> FHIRQuantity option" where
  "fhir_parse_quantity json =
     (if \<not> cJSON_IsObject json then None
      else
        (let v = cJSON_GetObjectItemCaseSensitive json ''value'';
             unit = cJSON_GetObjectItemCaseSensitive json ''unit'';
             system = cJSON_GetObjectItemCaseSensitive json ''system'';
             code = cJSON_GetObjectItemCaseSensitive json ''code'';
             comparator = cJSON_GetObjectItemCaseSensitive json ''comparator''
         in if \<not> cJSON_IsNumber v then None
            else
              (case fhir_quantity_create (valuedouble v)
                      (if cJSON_IsString unit then valuestring unit else None)
                      (if cJSON_IsString system then valuestring system else None)
                      (if cJSON_IsString code then valuestring code else None) of
                 None \<Rightarrow> None
               | Some quantity \<Rightarrow>
                   if cJSON_IsString comparator
                   then Some (quantity\<lparr>quantity_comparator :=
                                 fhir_string_duplicate (valuestring comparator)\<rparr>)
                   else Some quantity)))"

text \<open>
  The body of \<^verbatim>\<open>cJSON_ArrayForEach(given_item, given)\<close> in
  \<^verbatim>\<open>fhir_parse_human_name\<close>:
  \<^verbatim>\<open>name->given[name->given_count++] = fhir_string_duplicate(given_item->valuestring)\<close>
  for each string item.
\<close>

fun given_loop :: "cJSON list \<Rightarrow> FHIRHumanName \<Rightarrow> fault + FHIRHumanName" where
  "given_loop [] name = Inr name"
| "given_loop (given_item # rest) name =
     (if cJSON_IsString (Some given_item) then
        (case store (name_given name) (name_given_count name)
                (fhir_string_duplicate (valuestring (Some given_item))) of
           Inl e \<Rightarrow> Inl e
         | Inr array \<Rightarrow>
             given_loop rest
               (name\<lparr>name_given := array, name_given_count := name_given_count name + 1\<rparr>))
      else given_loop rest name)"

text \<open>
  \<^verbatim>\<open>prefix\<close> and \<^verbatim>\<open>suffix\<close> are looked up by the source and then not used.
\<close>

definition fhir_parse_human_name :: "cJSON option \<Rightarrow> fault + FHIRHumanName option" where
  "fhir_parse_human_name json =
     (if \<not> cJSON_IsObject json then Inr None
      else
        (let name0 = \<lparr>name_use = None, name_text = None, name_family = None,
                      name_family_count = 0, name_given = None, name_given_count = 0\<rparr>;
             use = cJSON_GetObjectItemCaseSensitive json ''use'';
             text_item = cJSON_GetObjectItemCaseSensitive json ''text'';
             family = cJSON_GetObjectItemCaseSensitive json ''family'';
             given = cJSON_GetObjectItemCaseSensitive json ''given'';
             name1 = (if cJSON_IsString use
                      then name0\<lparr>name_use := fhir_string_duplicate (valuestring use)\<rparr>
                      else name0);
             name2 = (if cJSON_IsString text_item
                      then name1\<lparr>name_text := fhir_string_duplicate (valuestring text_item)\<rparr>
                      else name1)
         in (case (if cJSON_IsString family then
                     (case store (fhir_string_array_create 1) 0
                             (fhir_string_duplicate (valuestring family)) of
                        Inl e \<Rightarrow> Inl e
                      | Inr array \<Rightarrow>
                          Inr (name2\<lparr>name_family := array, name_family_count := 1\<rparr>))
                   else Inr name2) of
               Inl e \<Rightarrow> Inl e
             | Inr name3 \<Rightarrow>
                 if cJSON_IsArray given then
                   (let array_size = cJSON_GetArraySize given
                    in if array_size > 0 then
                         (case given_loop (children given)
                                 (name3\<lparr>name_given := fhir_string_array_create (nat array_size),
                                        name_given_count := 0\<rparr>) of
                            Inl e \<Rightarrow> Inl e
                          | Inr name4 \<Rightarrow> Inr (Some name4))
                       else Inr (Some name3))
                 else Inr (Some name3))))"

subsection \<open>Serializing complex values\<close>

definition fhir_coding_to_json :: "FHIRCoding option \<Rightarrow> cJSON option" where
  "fhir_coding_to_json p =
     (case p of
        None \<Rightarrow> None
      | Some coding \<Rightarrow>
          (case cJSON_CreateObject of
             None \<Rightarrow> None
           | Some json0 \<Rightarrow>
               (let json1 = (case coding_system coding of
                               Some s \<Rightarrow> cJSON_AddStringToObject json0 ''system'' s
                             | None \<Rightarrow> json0);
                    json2 = (case coding_version coding of
                               Some s \<Rightarrow> cJSON_AddStringToObject json1 ''version'' s
                             | None \<Rightarrow> json1);
                    json3 = (case coding_code coding of
                               Some s \<Rightarrow> cJSON_AddStringToObject json2 ''code'' s
                             | None \<Rightarrow> json2);
                    json4 = (case coding_display coding of
                               Some s \<Rightarrow> cJSON_AddStringToObject json3 ''display'' s
                             | None \<Rightarrow> json3);
                    json5 = (if coding_user_selected coding
                             then cJSON_AddBoolToObject json4 ''userSelected''
                                    (coding_user_selected coding)
                             else json4)
                in Some json5)))"

definition fhir_quantity_to_json :: "FHIRQuantity option \<Rightarrow> cJSON option" where
  "fhir_quantity_to_json p =
     (case p of
        None \<Rightarrow> None
      | Some quantity \<Rightarrow>
          (case cJSON_CreateObject of
             None \<Rightarrow> None
           | Some json0 \<Rightarrow>
               (let json1 = cJSON_AddNumberToObject json0 ''value'' (quantity_value quantity);
                    json2 = (case quantity_comparator quantity of
                               Some s \<Rightarrow> cJSON_AddStringToObject json1 ''comparator'' s
                             | None \<Rightarrow> json1);
                    json3 = (case quantity_unit quantity of
                               Some s \<Rightarrow> cJSON_AddStringToObject json2 ''unit'' s
                             | None \<Rightarrow> json2);
                    json4 = (case quantity_system quantity of
                               Some s \<Rightarrow> cJSON_AddStringToObject json3 ''system'' s
                             | None \<Rightarrow> json3);
                    json5 = (case quantity_code quantity of
                               Some s \<Rightarrow> cJSON_AddStringToObject json4 ''code'' s
                             | None \<Rightarrow> json4)
                in Some json5)))"

subsection \<open>Reading the parsed containers\<close>

text \<open>
  The elements of a counted array that are in use: the first \<^verbatim>\<open>count\<close> ones.
\<close>

definition concept_codings :: "FHIRCodeableConcept \<Rightarrow> FHIRCoding option list" where
  "concept_codings concept =
     (case concept_coding concept of
        None \<Rightarrow> []
      | Some array \<Rightarrow> take (concept_coding_count concept) array)"

definition name_givens :: "FHIRHumanName \<Rightarrow> string option list" where
  "name_givens name =
     (case name_given name of
        None \<Rightarrow> []
      | Some array \<Rightarrow> take (name_given_count name) array)"

text \<open>An array element that \<^verbatim>\<open>fhir_parse_coding\<close> parses; a string element.\<close>

definition parses_as_coding :: "cJSON \<Rightarrow> bool" where
  "parses_as_coding item = (fhir_parse_coding (Some item) \<noteq> None)"

definition is_string_item :: "cJSON \<Rightarrow> bool" where
  "is_string_item item = cJSON_IsString (Some item)"

text \<open>The elements of a node that is an array, and no elements for any other node.\<close>

fun array_elements :: "cJSON option \<Rightarrow> cJSON list" where
  "array_elements (Some (cJSON_Array elements)) = elements"
| "array_elements item = []"

text \<open>
  An integer-shaped number, in the specification's words: a number node whose value
  has no fractional part.
\<close>

fun integer_shaped :: "cJSON option \<Rightarrow> bool" where
  "integer_shaped (Some (cJSON_Number (Finite q))) = (q = of_int \<lfloor>q\<rfloor>)"
| "integer_shaped item = False"

subsection \<open>Example values\<close>

definition example_coding :: FHIRCoding where
  "example_coding =
     \<lparr>coding_system = Some ''http://loinc.org'',
      coding_version = Some ''2.74'',
      coding_code = Some ''718-7'',
      coding_display = None,
      coding_user_selected = False\<rparr>"

definition example_coding_items :: "cJSON list" where
  "example_coding_items =
     [cJSON_Object [(''system'', cJSON_String ''http://loinc.org''),
                    (''code'', cJSON_String ''718-7'')],
      cJSON_String ''not a coding'',
      cJSON_Object [(''code'', cJSON_String ''4548-4''), (''userSelected'', cJSON_True)]]"

definition example_concept_document :: cJSON where
  "example_concept_document = cJSON_Object [(''coding'', cJSON_Array example_coding_items)]"

definition example_name_document :: cJSON where
  "example_name_document =
     cJSON_Object
       [(''family'', cJSON_String ''Chalmers''),
        (''given'', cJSON_Array
           [cJSON_String ''Peter'', cJSON_Number (Finite 5), cJSON_String ''James''])]"

section \<open>Ownership of resources\<close>

text \<open>
  Modelled from the spec: the resource base (\<^verbatim>\<open>fhir_resource_retain\<close>,
  \<^verbatim>\<open>fhir_resource_release\<close>, \<^verbatim>\<open>fhir_resource_get_ref_count\<close>, the constructors
  and \<^verbatim>\<open>fhir_validate_id\<close>) is not among the sources; only its tests are. The
  definitions of this section follow sections 3 and 4.2 of the specification and the
  calls the tests make.

  A handle is the index of a cell of the heap. A cell holds the resource while the
  resource is alive and nothing once it has been destroyed; cells are never reused.
  \<open>destroyed\<close> logs each run of a destructor with the handle it ran on.
\<close>

datatype resource_type =
    Patient | CarePlan | CareTeam | Goal | ServiceRequest | NutritionOrder
  | RiskAssessment | VisionPrescription | PractitionerRole

record FHIRResourceBase =
  resource_id :: string
  resource_kind :: resource_type
  ref_count :: nat

record heap =
  cells :: "FHIRResourceBase option list"
  destroyed :: "nat list"

definition empty_heap :: heap where
  "empty_heap = \<lparr>cells = [], destroyed = []\<rparr>"

text \<open>
  Modelled from the spec: an identifier is non-empty, has at most 64 characters, and
  consists of letters, digits, hyphens and periods.
\<close>

definition id_char :: "char \<Rightarrow> bool" where
  "id_char c =
     (let n = (of_char c :: nat)
      in (48 \<le> n \<and> n \<le> 57) \<or> (65 \<le> n \<and> n \<le> 90) \<or> (97 \<le> n \<and> n \<le> 122) \<or>
         c = CHR ''-'' \<or> c = CHR ''.'')"

definition fhir_validate_id :: "string option \<Rightarrow> bool" where
  "fhir_validate_id p =
     (case p of
        None \<Rightarrow> False
      | Some i \<Rightarrow> i \<noteq> [] \<and> length i \<le> 64 \<and> list_all id_char i)"

text \<open>The resource a handle refers to, if the handle is non-null and the resource alive.\<close>

definition live :: "heap \<Rightarrow> nat option \<Rightarrow> FHIRResourceBase option" where
  "live h handle =
     (case handle of
        None \<Rightarrow> None
      | Some a \<Rightarrow> if a < length (cells h) then cells h ! a else None)"

text \<open>
  Modelled from the spec: \<^verbatim>\<open>create(kind, id)\<close> validates the id before allocating and
  returns no resource on an invalid id; a new resource has the count 1.
\<close>

definition fhir_resource_create ::
  "heap \<Rightarrow> resource_type \<Rightarrow> string option \<Rightarrow> nat option \<times> heap" where
  "fhir_resource_create h kind id_arg =
     (case id_arg of
        None \<Rightarrow> (None, h)
      | Some i \<Rightarrow>
          if \<not> fhir_validate_id (Some i) then (None, h)
          else (Some (length (cells h)),
                h\<lparr>cells := cells h @
                     [Some \<lparr>resource_id = i, resource_kind = kind, ref_count = 1\<rparr>]\<rparr>))"

text \<open>
  Modelled from the spec: the count of a resource. Using a handle whose resource has
  been destroyed is the programming error the specification names; it is the fault
  \<open>UseAfterRelease\<close>.
\<close>

definition fhir_resource_get_ref_count :: "heap \<Rightarrow> nat option \<Rightarrow> fault + nat" where
  "fhir_resource_get_ref_count h handle =
     (case handle of
        None \<Rightarrow> Inr 0
      | Some a \<Rightarrow>
          (case live h handle of
             None \<Rightarrow> Inl UseAfterRelease
           | Some r \<Rightarrow> Inr (ref_count r)))"

text \<open>
  Modelled from the spec: \<^verbatim>\<open>retain(handle)\<close> increments the count and returns an
  equivalent handle, the same underlying resource.
\<close>

definition fhir_resource_retain :: "heap \<Rightarrow> nat option \<Rightarrow> fault + (nat option \<times> heap)" where
  "fhir_resource_retain h handle =
     (case handle of
        None \<Rightarrow> Inr (None, h)
      | Some a \<Rightarrow>
          (case live h handle of
             None \<Rightarrow> Inl UseAfterRelease
           | Some r \<Rightarrow>
               Inr (Some a,
                    h\<lparr>cells := (cells h)[a := Some (r\<lparr>ref_count := ref_count r + 1\<rparr>)]\<rparr>)))"

text \<open>
  Modelled from the spec: \<^verbatim>\<open>release(handle)\<close> decrements the count; at zero it runs
  the destructor, once.
\<close>

definition fhir_resource_release :: "heap \<Rightarrow> nat option \<Rightarrow> fault + heap" where
  "fhir_resource_release h handle =
     (case handle of
        None \<Rightarrow> Inr h
      | Some a \<Rightarrow>
          (case live h handle of
             None \<Rightarrow> Inl UseAfterRelease
           | Some r \<Rightarrow>
               if ref_count r - 1 = 0
               then Inr (h\<lparr>cells := (cells h)[a := None], destroyed := destroyed h @ [a]\<rparr>)
               else Inr (h\<lparr>cells := (cells h)[a := Some (r\<lparr>ref_count := ref_count r - 1\<rparr>)]\<rparr>)))"

text \<open>
  The invariant of the heap: every live resource has a count of at least 1, and the
  destructor log holds exactly the handles of the dead cells, each once.
\<close>

definition counted :: "FHIRResourceBase option \<Rightarrow> bool" where
  "counted c = (case c of None \<Rightarrow> True | Some r \<Rightarrow> 1 \<le> ref_count r)"

definition heap_ok :: "heap \<Rightarrow> bool" where
  "heap_ok h =
     (list_all counted (cells h) \<and>
      distinct (destroyed h) \<and>
      set (destroyed h) = set (filter (\<lambda>a. cells h ! a = None) [0..<length (cells h)]))"

section \<open>Verification\<close>

subsection \<open>Unrolling the loops\<close>

lemma date_year_loop_exit: "date_year_loop date (Suc (Suc (Suc (Suc 0)))) = Inr True"
  by (simp add: date_year_loop.simps)

lemma date_year_loop_step:
  "i < 4 \<Longrightarrow> i < length date \<Longrightarrow>
   date_year_loop date i =
     (if isdigit (date ! i) then date_year_loop date (Suc i) else Inr False)"
  by (subst date_year_loop.simps) simp

lemma date_year_loop_0:
  "date_year_loop (a # b # c # d # rest) 0 =
     Inr (isdigit a \<and> isdigit b \<and> isdigit c \<and> isdigit d)"
  by (simp add: date_year_loop_step date_year_loop_exit eval_nat_numeral)

lemma length_4_cases: "length s = 4 \<Longrightarrow> \<exists>a b c d. s = [a, b, c, d]"
  by (auto simp: eval_nat_numeral length_Suc_conv)

lemma length_7_cases: "length s = 7 \<Longrightarrow> \<exists>a b c d e f g. s = [a, b, c, d, e, f, g]"
  by (auto simp: eval_nat_numeral length_Suc_conv)

lemma length_10_cases:
  "length s = 10 \<Longrightarrow> \<exists>a b c d e f g h i j. s = [a, b, c, d, e, f, g, h, i, j]"
  by (auto simp: eval_nat_numeral length_Suc_conv)

lemma minus_zero_pair:
  "isdigit a \<Longrightarrow> isdigit b \<Longrightarrow>
   minus_zero a * 10 + minus_zero b = int (two_digit_value [a, b])"
  by (simp add: isdigit_def minus_zero_def two_digit_value_def)

subsection \<open>The date predicate\<close>

lemma validate_date_len4:
  "length s = 4 \<Longrightarrow> fhir_validate_date (Some s) = Inr (date_shape s)"
  apply (drule length_4_cases)
  apply clarify
  apply (simp add: fhir_validate_date_def strlen_def date_year_loop_0 date_shape_def
      digits_def split: bool.splits)
  done

lemma validate_date_len7:
  "length s = 7 \<Longrightarrow> fhir_validate_date (Some s) = Inr (date_shape s)"
  apply (drule length_7_cases)
  apply clarify
  apply (simp add: fhir_validate_date_def strlen_def date_year_loop_0 date_shape_def
      digits_def date_month_def read_char_def two_digits_between_def Let_def
      minus_zero_pair split: bool.splits)
  apply auto
  done

lemma validate_date_len10:
  "length s = 10 \<Longrightarrow> fhir_validate_date (Some s) = Inr (date_shape s)"
  apply (drule length_10_cases)
  apply clarify
  apply (simp add: fhir_validate_date_def strlen_def date_year_loop_0 date_shape_def
      digits_def date_month_def date_day_def read_char_def two_digits_between_def Let_def
      minus_zero_pair split: bool.splits)
  apply auto
  done

lemma validate_date_other_length:
  "length s \<noteq> 4 \<Longrightarrow> length s \<noteq> 7 \<Longrightarrow> length s \<noteq> 10 \<Longrightarrow>
   fhir_validate_date (Some s) = Inr (date_shape s)"
  by (simp add: fhir_validate_date_def strlen_def date_shape_def)

lemma validate_date_is_date_shape: "fhir_validate_date (Some s) = Inr (date_shape s)"
  using validate_date_len4 validate_date_len7 validate_date_len10 validate_date_other_length
  by blast

lemmas date_shape_eval =
  date_shape_def digits_def two_digits_between_def two_digit_value_def isdigit_def

text \<open>
  Claim C4. For every string \<open>s\<close>, \<^verbatim>\<open>fhir_validate_date(s)\<close> returns true exactly when
  \<open>s\<close> has the shape \<^verbatim>\<open>YYYY\<close>, \<^verbatim>\<open>YYYY-MM\<close> or \<^verbatim>\<open>YYYY-MM-DD\<close> with all-digit
  components, a month from 01 to 12 and a day from 01 to 31, and it never reads outside
  the string. \<^verbatim>\<open>2023-01-01\<close> is accepted; \<^verbatim>\<open>2023-1-1\<close>, \<^verbatim>\<open>23-01-01\<close>,
  \<^verbatim>\<open>2023/01/01\<close> and \<^verbatim>\<open>2023-01-01T\<close> are rejected. There is no days-per-month check:
  \<^verbatim>\<open>2023-02-31\<close> is accepted.
\<close>

theorem fhir_validate_date_iff_shape:
  "fhir_validate_date (Some s) = Inr (date_shape s) \<and>
   fhir_validate_date (Some ''2023-01-01'') = Inr True \<and>
   fhir_validate_date (Some ''2023-1-1'') = Inr False \<and>
   fhir_validate_date (Some ''23-01-01'') = Inr False \<and>
   fhir_validate_date (Some ''2023/01/01'') = Inr False \<and>
   fhir_validate_date (Some ''2023-01-01T'') = Inr False \<and>
   fhir_validate_date (Some ''2023-02-31'') = Inr True"
  by (simp add: validate_date_is_date_shape date_shape_eval)

subsection \<open>The time predicate\<close>

lemma length_ge8_cases:
  "8 \<le> length s \<Longrightarrow> \<exists>a b c d e f g h rest. s = a # b # c # d # e # f # g # h # rest"
  by (auto simp: eval_nat_numeral Suc_le_length_iff)

text \<open>
  What the function computes: only the first eight characters are inspected, whatever
  follows them.
\<close>

lemma validate_time_prefix:
  "fhir_validate_time (Some s) = Inr (8 \<le> length s \<and> hms_shape (take 8 s))"
proof (cases "8 \<le> length s")
  case False
  then show ?thesis by (simp add: fhir_validate_time_def strlen_def)
next
  case True
  then obtain a b c d e f g h rest where s: "s = a # b # c # d # e # f # g # h # rest"
    using length_ge8_cases by blast
  show ?thesis
    unfolding s
    by (simp add: fhir_validate_time_def strlen_def read_char_def Let_def hms_shape_def
        two_digits_between_def digits_def minus_zero_pair)
qed

lemma validate_time_accepts_shape:
  "time_shape s \<Longrightarrow> fhir_validate_time (Some s) = Inr True"
  by (auto simp add: validate_time_prefix time_shape_def hms_shape_def)

lemmas time_shape_eval = time_shape_def hms_shape_def fraction_shape_def date_shape_eval

text \<open>
  Claim C5. The claim says that \<^verbatim>\<open>fhir_validate_time\<close> returns true exactly on
  \<^verbatim>\<open>HH:MM:SS\<close> with an optional fraction, and rejects a string with other characters
  after the seconds. The function accepts every string of that shape
  (\<open>validate_time_accepts_shape\<close>) but never looks past the eighth character: at
  \<^verbatim>\<open>12:34:56xyz\<close>, which is not of the shape, it returns true.
\<close>

theorem fhir_validate_time_accepts_trailing_text:
  "fhir_validate_time (Some ''12:34:56xyz'') = Inr True \<and> \<not> time_shape ''12:34:56xyz''"
  by (simp add: validate_time_prefix time_shape_eval)

subsection \<open>The code predicate, and memory safety of all five\<close>

lemma code_loop_exit: "\<not> i < len \<Longrightarrow> code_loop code len i = Inr True"
  by (subst code_loop.simps) simp

lemma code_loop_step:
  "i < len \<Longrightarrow> i < length code \<Longrightarrow>
   code_loop code len i =
     (if isspace (code ! i) then Inr False else code_loop code len (Suc i))"
  by (subst code_loop.simps) simp

lemma code_loop_result:
  "len \<le> length code \<Longrightarrow>
   code_loop code len i = Inr (list_all (\<lambda>c. \<not> isspace c) (drop i (take len code)))"
proof (induction "len - i" arbitrary: i)
  case 0
  then show ?case by (simp add: code_loop_exit)
next
  case (Suc n)
  then have il: "i < len" and ic: "i < length code" by simp_all
  have unfold: "drop i (take len code) = code ! i # drop (Suc i) (take len code)"
    using il ic by (simp add: Cons_nth_drop_Suc [symmetric])
  have "n = len - Suc i" using Suc.hyps(2) by simp
  then have "code_loop code len (Suc i) =
      Inr (list_all (\<lambda>c. \<not> isspace c) (drop (Suc i) (take len code)))"
    using Suc.hyps(1) Suc.prems by blast
  then show ?case
    by (simp add: code_loop_step il ic unfold)
qed

lemma validate_code_result:
  "fhir_validate_code (Some s) = Inr (s \<noteq> [] \<and> list_all (\<lambda>c. \<not> isspace c) s)"
  by (simp add: fhir_validate_code_def strlen_def code_loop_result split: bool.splits)

text \<open>
  Claim C9. Each of the five format predicates returns false on a null pointer, and on
  no argument, null or a string, does \<^verbatim>\<open>fhir_validate_date\<close>,
  \<^verbatim>\<open>fhir_validate_time\<close> or \<^verbatim>\<open>fhir_validate_code\<close> read outside the string: the
  result is always a boolean, never a fault. (\<^verbatim>\<open>fhir_validate_uri\<close> and
  \<^verbatim>\<open>fhir_validate_url\<close> index nothing themselves; they call \<^verbatim>\<open>strchr\<close> and
  \<^verbatim>\<open>strncmp\<close>, which stop at the terminator.) Every function of the model is total.
\<close>

theorem fhir_validate_null_safe_in_bounds:
  "fhir_validate_uri None = False \<and>
   fhir_validate_url None = False \<and>
   fhir_validate_date None = Inr False \<and>
   fhir_validate_time None = Inr False \<and>
   fhir_validate_code None = Inr False \<and>
   (\<exists>b. fhir_validate_date p = Inr b) \<and>
   (\<exists>b. fhir_validate_time p = Inr b) \<and>
   (\<exists>b. fhir_validate_code p = Inr b)"
proof -
  have n: "fhir_validate_date None = Inr False" "fhir_validate_time None = Inr False"
    "fhir_validate_code None = Inr False"
    by (simp_all add: fhir_validate_date_def fhir_validate_time_def fhir_validate_code_def)
  have d: "\<exists>b. fhir_validate_date p = Inr b"
    by (cases p) (auto simp: n validate_date_is_date_shape)
  have t: "\<exists>b. fhir_validate_time p = Inr b"
    by (cases p) (auto simp: n validate_time_prefix)
  have c: "\<exists>b. fhir_validate_code p = Inr b"
    by (cases p) (auto simp: n validate_code_result)
  show ?thesis using d t c n
    by (simp add: fhir_validate_uri_def fhir_validate_url_def)
qed

subsection \<open>Facts about the memory and tree primitives\<close>

lemma fhir_string_duplicate_id [simp]: "fhir_string_duplicate p = p"
  by (cases p) (simp_all add: fhir_string_duplicate_def)

lemma add_string_to_object:
  "cJSON_AddStringToObject (cJSON_Object ms) k v = cJSON_Object (ms @ [(k, cJSON_String v)])"
  by (simp add: cJSON_AddStringToObject_def)

lemma add_bool_to_object:
  "cJSON_AddBoolToObject (cJSON_Object ms) k b =
     cJSON_Object (ms @ [(k, if b then cJSON_True else cJSON_False)])"
  by (simp add: cJSON_AddBoolToObject_def)

lemma add_number_to_object:
  "cJSON_AddNumberToObject (cJSON_Object ms) k d = cJSON_Object (ms @ [(k, cJSON_Number d)])"
  by (simp add: cJSON_AddNumberToObject_def)

lemma store_in_bounds:
  "i < length elements \<Longrightarrow> store (Some elements) i p = Inr (Some (elements[i := p]))"
  by (simp add: store_def)

lemma int_of_size_exact: "n \<le> 2147483647 \<Longrightarrow> int_of_size n = int n"
  by (simp add: int_of_size_def)

lemma get_array_size_exact:
  "length items \<le> 2147483647 \<Longrightarrow>
   cJSON_GetArraySize (Some (cJSON_Array items)) = int (length items)"
  by (simp add: cJSON_GetArraySize_def int_of_size_exact)

text \<open>Beyond the range of \<^verbatim>\<open>int\<close> the size is not the number of elements.\<close>

lemma get_array_size_wraps:
  "cJSON_GetArraySize (Some (cJSON_Array (replicate 2147483648 item))) = - 2147483648"
  by (simp add: cJSON_GetArraySize_def int_of_size_def)

lemma is_array_elements:
  "cJSON_IsArray item \<Longrightarrow> item = Some (cJSON_Array (array_elements item))"
  by (cases item rule: cJSON_IsArray.cases) simp_all

lemma not_array_elements: "\<not> cJSON_IsArray item \<Longrightarrow> array_elements item = []"
  by (cases item rule: cJSON_IsArray.cases) simp_all

lemma get_item_is_object:
  "cJSON_GetObjectItemCaseSensitive json key = Some item \<Longrightarrow> cJSON_IsObject json"
  by (cases json rule: cJSON_IsObject.cases) simp_all

subsection \<open>Serialization of Coding and Quantity\<close>

lemma coding_to_json_members:
  "fhir_coding_to_json (Some c) = Some (cJSON_Object (
     (case coding_system c of Some s \<Rightarrow> [(''system'', cJSON_String s)] | None \<Rightarrow> []) @
     (case coding_version c of Some s \<Rightarrow> [(''version'', cJSON_String s)] | None \<Rightarrow> []) @
     (case coding_code c of Some s \<Rightarrow> [(''code'', cJSON_String s)] | None \<Rightarrow> []) @
     (case coding_display c of Some s \<Rightarrow> [(''display'', cJSON_String s)] | None \<Rightarrow> []) @
     (if coding_user_selected c then [(''userSelected'', cJSON_True)] else [])))"
  by (simp add: fhir_coding_to_json_def cJSON_CreateObject_def add_string_to_object
      add_bool_to_object split: option.splits)

lemma quantity_to_json_members:
  "fhir_quantity_to_json (Some q) = Some (cJSON_Object (
     [(''value'', cJSON_Number (quantity_value q))] @
     (case quantity_comparator q of Some s \<Rightarrow> [(''comparator'', cJSON_String s)] | None \<Rightarrow> []) @
     (case quantity_unit q of Some s \<Rightarrow> [(''unit'', cJSON_String s)] | None \<Rightarrow> []) @
     (case quantity_system q of Some s \<Rightarrow> [(''system'', cJSON_String s)] | None \<Rightarrow> []) @
     (case quantity_code q of Some s \<Rightarrow> [(''code'', cJSON_String s)] | None \<Rightarrow> [])))"
  by (simp add: fhir_quantity_to_json_def cJSON_CreateObject_def add_string_to_object
      add_number_to_object split: option.splits)

text \<open>
  Claim C8. The object rendered for a Coding has the key of a string sub-field exactly
  when the field is set (not null), and \<^verbatim>\<open>userSelected\<close> exactly when the flag is
  true; the object rendered for a Quantity has \<^verbatim>\<open>value\<close>, which is a number and
  cannot be unset, and the key of each string sub-field exactly when it is set. No other
  key is written. A Coding with only its code set is rendered as the object whose only
  member is \<^verbatim>\<open>code\<close>.
\<close>

theorem to_json_emits_populated_fields_only:
  "member_keys (fhir_coding_to_json (Some c)) =
     (if coding_system c = None then [] else [''system'']) @
     (if coding_version c = None then [] else [''version'']) @
     (if coding_code c = None then [] else [''code'']) @
     (if coding_display c = None then [] else [''display'']) @
     (if coding_user_selected c then [''userSelected''] else []) \<and>
   member_keys (fhir_quantity_to_json (Some q)) =
     [''value''] @
     (if quantity_comparator q = None then [] else [''comparator'']) @
     (if quantity_unit q = None then [] else [''unit'']) @
     (if quantity_system q = None then [] else [''system'']) @
     (if quantity_code q = None then [] else [''code'']) \<and>
   fhir_coding_to_json
     (Some \<lparr>coding_system = None, coding_version = None, coding_code = Some code,
            coding_display = None, coding_user_selected = False\<rparr>) =
     Some (cJSON_Object [(''code'', cJSON_String code)])"
  by (simp add: coding_to_json_members quantity_to_json_members split: option.splits)

subsection \<open>Round trip of a Coding\<close>

text \<open>
  What the round trip does preserve: every field but \<open>version\<close>, which the parser never
  reads and \<^verbatim>\<open>fhir_coding_create\<close> leaves null.
\<close>

lemma parse_coding_to_json:
  "fhir_parse_coding (fhir_coding_to_json (Some c)) = Some (c\<lparr>coding_version := None\<rparr>)"
  by (cases c) (simp add: coding_to_json_members fhir_parse_coding_def fhir_coding_create_def
      split: option.splits)

text \<open>
  Claim C1. The claim says that parsing the rendering of a Coding gives back a Coding
  equal in all five fields. The serializer writes \<^verbatim>\<open>version\<close>, the parser does not
  read it: for the Coding \<open>example_coding\<close>, whose version is \<^verbatim>\<open>2.74\<close>, the
  parsed value has no version and so differs from the original.
\<close>

theorem coding_round_trip_loses_version:
  "fhir_parse_coding (fhir_coding_to_json (Some example_coding)) =
     Some (example_coding\<lparr>coding_version := None\<rparr>) \<and>
   coding_version example_coding = Some ''2.74'' \<and>
   fhir_parse_coding (fhir_coding_to_json (Some example_coding)) \<noteq> Some example_coding"
  by (simp add: parse_coding_to_json) (simp add: example_coding_def)

subsection \<open>Scalar extraction\<close>

text \<open>
  Claim C6, as stated, fails for integers: the number 3.5 is not integer-shaped, and
  \<^verbatim>\<open>fhir_parse_integer\<close> returns the integer 3 for it, not null.
\<close>

theorem fhir_parse_integer_truncates_fraction:
  "\<not> integer_shaped (Some (cJSON_Number (Finite (7 / 2)))) \<and>
   fhir_parse_integer (Some (cJSON_Number (Finite (7 / 2)))) =
     Inr (Some \<lparr>integer_value = 3\<rparr>)"
proof -
  have f: "\<lfloor>7 / 2 :: rat\<rfloor> = 3"
    by (simp add: floor_eq_iff)
  show ?thesis
    by (simp add: fhir_parse_integer_def double_to_int_def truncate_toward_zero_def
        fhir_integer_create_def f)
qed

text \<open>
  Claim C6, amended. \<^verbatim>\<open>fhir_parse_string\<close> returns null exactly on the nodes that are
  not strings, \<^verbatim>\<open>fhir_parse_boolean\<close> exactly on the nodes that are not booleans, and
  \<^verbatim>\<open>fhir_parse_integer\<close> and \<^verbatim>\<open>fhir_parse_decimal\<close> exactly on the nodes that are
  not numbers. On a number node whose value, truncated toward zero, fits a 32-bit
  \<^verbatim>\<open>int\<close>, \<^verbatim>\<open>fhir_parse_integer\<close> returns that truncated value: a fractional number
  is converted, not refused.
\<close>

theorem scalar_parsers_type_checked:
  assumes "- 2147483648 \<le> truncate_toward_zero q" and "truncate_toward_zero q \<le> 2147483647"
  shows "(fhir_parse_string json = None \<longleftrightarrow> \<not> cJSON_IsString json) \<and>
    (fhir_parse_boolean json = None \<longleftrightarrow> \<not> cJSON_IsBool json) \<and>
    (fhir_parse_integer json = Inr None \<longleftrightarrow> \<not> cJSON_IsNumber json) \<and>
    (fhir_parse_decimal json = None \<longleftrightarrow> \<not> cJSON_IsNumber json) \<and>
    fhir_parse_integer (Some (cJSON_Number (Finite q))) =
      Inr (Some \<lparr>integer_value = truncate_toward_zero q\<rparr>)"
proof -
  have s: "fhir_parse_string json = None \<longleftrightarrow> \<not> cJSON_IsString json"
    by (simp add: fhir_parse_string_def fhir_string_create_def)
  have b: "fhir_parse_boolean json = None \<longleftrightarrow> \<not> cJSON_IsBool json"
    by (simp add: fhir_parse_boolean_def fhir_boolean_create_def)
  have i: "fhir_parse_integer json = Inr None \<longleftrightarrow> \<not> cJSON_IsNumber json"
    by (simp add: fhir_parse_integer_def fhir_integer_create_def split: sum.splits)
  have d: "fhir_parse_decimal json = None \<longleftrightarrow> \<not> cJSON_IsNumber json"
    by (simp add: fhir_parse_decimal_def fhir_decimal_create_def)
  have t: "fhir_parse_integer (Some (cJSON_Number (Finite q))) =
      Inr (Some \<lparr>integer_value = truncate_toward_zero q\<rparr>)"
    using assms by (simp add: fhir_parse_integer_def double_to_int_def fhir_integer_create_def)
  show ?thesis using s b i d t by blast
qed

theorem scalar_parsers_type_checked_witness:
  "- 2147483648 \<le> truncate_toward_zero (- (7 / 2)) \<and>
   truncate_toward_zero (- (7 / 2)) \<le> 2147483647 \<and>
   fhir_parse_string (Some (cJSON_Number (Finite 1))) = None \<and>
   fhir_parse_boolean (Some (cJSON_String ''true'')) = None \<and>
   fhir_parse_integer (Some (cJSON_String ''12'')) = Inr None \<and>
   fhir_parse_integer (Some (cJSON_Number (Finite (- (7 / 2))))) =
     Inr (Some \<lparr>integer_value = - 3\<rparr>)"
proof -
  have t: "truncate_toward_zero (- (7 / 2)) = - 3"
    by (simp add: truncate_toward_zero_def ceiling_eq_iff)
  have lo: "- 2147483648 \<le> truncate_toward_zero (- (7 / 2))"
    and hi: "truncate_toward_zero (- (7 / 2)) \<le> 2147483647"
    by (simp_all add: t)
  show ?thesis
    using scalar_parsers_type_checked [OF lo hi, of "Some (cJSON_Number (Finite 1))"]
      scalar_parsers_type_checked [OF lo hi, of "Some (cJSON_String ''true'')"]
      scalar_parsers_type_checked [OF lo hi, of "Some (cJSON_String ''12'')"]
    by (simp add: t)
qed

subsection \<open>Parsing the codings of a CodeableConcept\<close>

lemma parse_coding_None_iff: "fhir_parse_coding json = None \<longleftrightarrow> \<not> cJSON_IsObject json"
  by (simp add: fhir_parse_coding_def fhir_coding_create_def Let_def)

lemma parses_as_coding_iff: "parses_as_coding item \<longleftrightarrow> cJSON_IsObject (Some item)"
  by (simp add: parses_as_coding_def parse_coding_None_iff)

text \<open>
  The loop writes below the end of the array as long as the count and the items still
  to visit fit in it; it then fills the next free elements, in order, with the items
  that parse.
\<close>

lemma coding_loop_result:
  "concept_coding concept = Some array \<Longrightarrow>
   concept_coding_count concept + length items \<le> length array \<Longrightarrow>
   \<exists>array'. coding_loop items concept =
       Inr (concept\<lparr>concept_coding := Some array',
                    concept_coding_count :=
                      concept_coding_count concept + length (filter parses_as_coding items)\<rparr>) \<and>
     length array' = length array \<and>
     take (concept_coding_count concept + length (filter parses_as_coding items)) array' =
       take (concept_coding_count concept) array @
       map (\<lambda>item. fhir_parse_coding (Some item)) (filter parses_as_coding items)"
proof (induction items arbitrary: concept array)
  case Nil
  then have "concept\<lparr>concept_coding := Some array\<rparr> = concept"
    by (cases concept) simp
  then show ?case by (intro exI [of _ array]) simp
next
  case (Cons item rest)
  let ?n = "concept_coding_count concept"
  show ?case
  proof (cases "fhir_parse_coding (Some item)")
    case None
    have "concept_coding_count concept + length rest \<le> length array"
      using Cons.prems(2) by simp
    moreover have "\<not> parses_as_coding item"
      using None by (simp add: parses_as_coding_def)
    ultimately show ?thesis
      using Cons.IH [OF Cons.prems(1)] None by simp
  next
    case (Some coding)
    let ?array = "array[?n := Some coding]"
    let ?concept = "concept\<lparr>concept_coding := Some ?array, concept_coding_count := ?n + 1\<rparr>"
    have lt: "?n < length array" using Cons.prems(2) by simp
    have c: "concept_coding ?concept = Some ?array" by simp
    have b: "concept_coding_count ?concept + length rest \<le> length ?array"
      using Cons.prems(2) by simp
    from Cons.IH [OF c b] obtain array' where
      run: "coding_loop rest ?concept =
         Inr (?concept\<lparr>concept_coding := Some array',
                concept_coding_count :=
                  concept_coding_count ?concept + length (filter parses_as_coding rest)\<rparr>)"
      and len: "length array' = length ?array"
      and tk: "take (concept_coding_count ?concept + length (filter parses_as_coding rest)) array' =
         take (concept_coding_count ?concept) ?array @
         map (\<lambda>item. fhir_parse_coding (Some item)) (filter parses_as_coding rest)"
      by blast
    have first: "take (?n + 1) ?array = take ?n array @ [Some coding]"
      using lt by (simp add: take_Suc_conv_app_nth)
    have p: "parses_as_coding item"
      using Some by (simp add: parses_as_coding_def)
    show ?thesis
      using run len tk first lt Some Cons.prems(1) p
      by (intro exI [of _ array']) (simp add: store_in_bounds)
  qed
qed

lemma parse_codeable_concept_array:
  assumes "cJSON_GetObjectItemCaseSensitive json ''coding'' = Some (cJSON_Array items)"
    and bound: "length items \<le> 2147483647"
  shows "\<exists>concept. fhir_parse_codeable_concept json = Inr (Some concept) \<and>
      concept_coding_count concept = length (filter parses_as_coding items) \<and>
      concept_codings concept =
        map (\<lambda>item. fhir_parse_coding (Some item)) (filter parses_as_coding items)"
proof -
  note coding = assms(1)
  from coding have obj: "cJSON_IsObject json"
    by (rule get_item_is_object)
  let ?text = "cJSON_GetObjectItemCaseSensitive json ''text''"
  let ?c0 = "\<lparr>concept_text = (if cJSON_IsString ?text then valuestring ?text else None),
      concept_coding = None, concept_coding_count = 0\<rparr>"
  show ?thesis
  proof (cases items)
    case Nil
    with coding obj show ?thesis
      by (simp add: fhir_parse_codeable_concept_def fhir_codeable_concept_create_def
          cJSON_GetArraySize_def int_of_size_def concept_codings_def Let_def)
  next
    case (Cons item rest)
    let ?c1 = "?c0\<lparr>concept_coding := calloc_pointers (length items),
        concept_coding_count := 0\<rparr>"
    have "concept_coding ?c1 = Some (replicate (length items) None)"
      by (simp add: calloc_pointers_def)
    moreover have "concept_coding_count ?c1 + length items \<le>
        length (replicate (length items) (None :: FHIRCoding option))"
      by simp
    ultimately obtain array' where
      run: "coding_loop items ?c1 =
         Inr (?c1\<lparr>concept_coding := Some array',
                concept_coding_count :=
                  concept_coding_count ?c1 + length (filter parses_as_coding items)\<rparr>)"
      and tk: "take (concept_coding_count ?c1 + length (filter parses_as_coding items)) array' =
         take (concept_coding_count ?c1) (replicate (length items) None) @
         map (\<lambda>item. fhir_parse_coding (Some item)) (filter parses_as_coding items)"
      using coding_loop_result [of ?c1 "replicate (length items) None" items] by blast
    have size: "cJSON_GetArraySize (Some (cJSON_Array items)) = int (length items)"
      using bound by (rule get_array_size_exact)
    have nonempty: "0 < length items" using Cons by simp
    show ?thesis
      using coding obj run tk nonempty
      by (simp add: fhir_parse_codeable_concept_def fhir_codeable_concept_create_def
          size concept_codings_def Let_def)
  qed
qed

lemma parse_codeable_concept_no_array:
  "cJSON_IsObject json \<Longrightarrow>
   \<not> cJSON_IsArray (cJSON_GetObjectItemCaseSensitive json ''coding'') \<Longrightarrow>
   \<exists>concept. fhir_parse_codeable_concept json = Inr (Some concept)"
  by (simp add: fhir_parse_codeable_concept_def fhir_codeable_concept_create_def Let_def)

lemma parse_codeable_concept_object:
  assumes "cJSON_IsObject json"
    and "length (array_elements (cJSON_GetObjectItemCaseSensitive json ''coding'')) \<le> 2147483647"
  shows "\<exists>concept. fhir_parse_codeable_concept json = Inr (Some concept)"
proof (cases "cJSON_IsArray (cJSON_GetObjectItemCaseSensitive json ''coding'')")
  case True
  then have "cJSON_GetObjectItemCaseSensitive json ''coding'' =
      Some (cJSON_Array (array_elements (cJSON_GetObjectItemCaseSensitive json ''coding'')))"
    by (rule is_array_elements)
  from parse_codeable_concept_array [OF this assms(2)] show ?thesis by blast
next
  case False
  with assms(1) show ?thesis by (rule parse_codeable_concept_no_array)
qed

lemma example_coding_items_parse:
  "filter parses_as_coding example_coding_items =
     [example_coding_items ! 0, example_coding_items ! 2]"
  by (simp add: example_coding_items_def parses_as_coding_iff)

text \<open>
  The example of the specification, evaluated: two Coding objects around a string. The
  array has three elements, two of them in use.
\<close>

lemma parse_example_concept_document:
  "fhir_parse_codeable_concept (Some example_concept_document) =
     Inr (Some \<lparr>concept_text = None,
       concept_coding = Some
         [Some \<lparr>coding_system = Some ''http://loinc.org'', coding_version = None,
                 coding_code = Some ''718-7'', coding_display = None,
                 coding_user_selected = False\<rparr>,
          Some \<lparr>coding_system = None, coding_version = None,
                 coding_code = Some ''4548-4'', coding_display = None,
                 coding_user_selected = True\<rparr>,
          None],
       concept_coding_count = 2\<rparr>)"
  by (simp add: example_concept_document_def example_coding_items_def
      fhir_parse_codeable_concept_def fhir_codeable_concept_create_def
      cJSON_GetArraySize_def int_of_size_def calloc_pointers_def fhir_parse_coding_def
      fhir_coding_create_def store_def Let_def numeral_3_eq_3)

text \<open>
  Claim C3. When the \<^verbatim>\<open>coding\<close> field of the document is an array whose number
  of elements is in the range of \<^verbatim>\<open>int\<close> (where \<^verbatim>\<open>cJSON_GetArraySize\<close> is exact),
  \<^verbatim>\<open>fhir_parse_codeable_concept\<close> returns a concept (it neither fails nor writes outside
  the array it allocated) whose \<^verbatim>\<open>coding_count\<close> is the number of array elements that
  \<^verbatim>\<open>fhir_parse_coding\<close> parses, and whose codings in use are exactly the parsed values of
  those elements, in the order of the array. The elements that parse are the objects.
\<close>

theorem fhir_parse_codeable_concept_keeps_parsed_codings:
  assumes "cJSON_GetObjectItemCaseSensitive json ''coding'' = Some (cJSON_Array items)"
    and "length items \<le> 2147483647"
  shows "\<exists>concept. fhir_parse_codeable_concept json = Inr (Some concept) \<and>
      concept_coding_count concept = length (filter parses_as_coding items) \<and>
      concept_codings concept =
        map (\<lambda>item. fhir_parse_coding (Some item)) (filter parses_as_coding items) \<and>
      length (concept_codings concept) = concept_coding_count concept \<and>
      list_all (\<lambda>coding. coding \<noteq> None) (concept_codings concept) \<and>
      filter parses_as_coding items = filter (\<lambda>item. cJSON_IsObject (Some item)) items"
proof -
  from parse_codeable_concept_array [OF assms] obtain concept where
    run: "fhir_parse_codeable_concept json = Inr (Some concept)"
    and n: "concept_coding_count concept = length (filter parses_as_coding items)"
    and cs: "concept_codings concept =
        map (\<lambda>item. fhir_parse_coding (Some item)) (filter parses_as_coding items)"
    by blast
  have len: "length (concept_codings concept) = concept_coding_count concept"
    by (simp add: cs n)
  have all: "list_all (\<lambda>coding. coding \<noteq> None) (concept_codings concept)"
    by (simp add: cs list_all_iff parses_as_coding_def)
  have objs: "filter parses_as_coding items = filter (\<lambda>item. cJSON_IsObject (Some item)) items"
    by (rule filter_cong) (simp_all add: parses_as_coding_iff)
  show ?thesis using run n cs len all objs by blast
qed

text \<open>
  The example of the specification: two valid Coding objects and one entry that is not
  an object give exactly two codings.
\<close>

theorem fhir_parse_codeable_concept_keeps_parsed_codings_witness:
  "cJSON_GetObjectItemCaseSensitive (Some example_concept_document) ''coding'' =
     Some (cJSON_Array example_coding_items) \<and>
   length example_coding_items \<le> 2147483647 \<and>
   length example_coding_items = 3 \<and>
   (\<exists>concept. fhir_parse_codeable_concept (Some example_concept_document) =
        Inr (Some concept) \<and>
      concept_coding_count concept = 2 \<and>
      length (concept_codings concept) = 2 \<and>
      concept_codings concept =
        [fhir_parse_coding (Some (example_coding_items ! 0)),
         fhir_parse_coding (Some (example_coding_items ! 2))])"
proof -
  have h: "cJSON_GetObjectItemCaseSensitive (Some example_concept_document) ''coding'' =
      Some (cJSON_Array example_coding_items)"
    by (simp add: example_concept_document_def)
  have l: "length example_coding_items = 3"
    by (simp add: example_coding_items_def)
  have b: "length example_coding_items \<le> 2147483647"
    by (simp add: l)
  from fhir_parse_codeable_concept_keeps_parsed_codings [OF h b] obtain concept where
    "fhir_parse_codeable_concept (Some example_concept_document) = Inr (Some concept)"
    "concept_coding_count concept = length (filter parses_as_coding example_coding_items)"
    "concept_codings concept = map (\<lambda>item. fhir_parse_coding (Some item))
        (filter parses_as_coding example_coding_items)"
    by blast
  then have "fhir_parse_codeable_concept (Some example_concept_document) = Inr (Some concept) \<and>
      concept_coding_count concept = 2 \<and>
      length (concept_codings concept) = 2 \<and>
      concept_codings concept =
        [fhir_parse_coding (Some (example_coding_items ! 0)),
         fhir_parse_coding (Some (example_coding_items ! 2))]"
    by (simp add: example_coding_items_parse)
  then show ?thesis using h l b by blast
qed

subsection \<open>Parsing a HumanName\<close>

lemma given_loop_result:
  "name_given name = Some array \<Longrightarrow>
   name_given_count name + length items \<le> length array \<Longrightarrow>
   \<exists>array'. given_loop items name =
       Inr (name\<lparr>name_given := Some array',
                 name_given_count :=
                   name_given_count name + length (filter is_string_item items)\<rparr>) \<and>
     length array' = length array \<and>
     take (name_given_count name + length (filter is_string_item items)) array' =
       take (name_given_count name) array @
       map (\<lambda>item. valuestring (Some item)) (filter is_string_item items)"
proof (induction items arbitrary: name array)
  case Nil
  then have "name\<lparr>name_given := Some array\<rparr> = name"
    by (cases name) simp
  then show ?case by (intro exI [of _ array]) simp
next
  case (Cons item rest)
  let ?n = "name_given_count name"
  show ?case
  proof (cases "cJSON_IsString (Some item)")
    case False
    have "name_given_count name + length rest \<le> length array"
      using Cons.prems(2) by simp
    moreover have "\<not> is_string_item item"
      using False by (simp add: is_string_item_def)
    ultimately show ?thesis
      using Cons.IH [OF Cons.prems(1)] False by simp
  next
    case True
    let ?array = "array[?n := valuestring (Some item)]"
    let ?name = "name\<lparr>name_given := Some ?array, name_given_count := ?n + 1\<rparr>"
    have lt: "?n < length array" using Cons.prems(2) by simp
    have c: "name_given ?name = Some ?array" by simp
    have b: "name_given_count ?name + length rest \<le> length ?array"
      using Cons.prems(2) by simp
    from Cons.IH [OF c b] obtain array' where
      run: "given_loop rest ?name =
         Inr (?name\<lparr>name_given := Some array',
                name_given_count :=
                  name_given_count ?name + length (filter is_string_item rest)\<rparr>)"
      and len: "length array' = length ?array"
      and tk: "take (name_given_count ?name + length (filter is_string_item rest)) array' =
         take (name_given_count ?name) ?array @
         map (\<lambda>item. valuestring (Some item)) (filter is_string_item rest)"
      by blast
    have first: "take (?n + 1) ?array = take ?n array @ [valuestring (Some item)]"
      using lt by (simp add: take_Suc_conv_app_nth)
    have p: "is_string_item item"
      using True by (simp add: is_string_item_def)
    show ?thesis
      using run len tk first lt True Cons.prems(1) p
      by (intro exI [of _ array']) (simp add: store_in_bounds)
  qed
qed

lemma parse_human_name_result:
  assumes obj: "cJSON_IsObject json"
    and bound: "length (array_elements (cJSON_GetObjectItemCaseSensitive json ''given''))
      \<le> 2147483647"
  shows "\<exists>name. fhir_parse_human_name json = Inr (Some name) \<and>
      name_family_count name =
        (if cJSON_IsString (cJSON_GetObjectItemCaseSensitive json ''family'') then 1 else 0) \<and>
      name_family name =
        (if cJSON_IsString (cJSON_GetObjectItemCaseSensitive json ''family'')
         then Some [valuestring (cJSON_GetObjectItemCaseSensitive json ''family'')]
         else None) \<and>
      name_given_count name =
        length (filter is_string_item
          (array_elements (cJSON_GetObjectItemCaseSensitive json ''given''))) \<and>
      name_givens name =
        map (\<lambda>item. valuestring (Some item))
          (filter is_string_item
            (array_elements (cJSON_GetObjectItemCaseSensitive json ''given'')))"
proof -
  define use where "use = cJSON_GetObjectItemCaseSensitive json ''use''"
  define text_item where "text_item = cJSON_GetObjectItemCaseSensitive json ''text''"
  define family where "family = cJSON_GetObjectItemCaseSensitive json ''family''"
  define given where "given = cJSON_GetObjectItemCaseSensitive json ''given''"
  define name3 where "name3 =
    \<lparr>name_use = (if cJSON_IsString use then valuestring use else None),
     name_text = (if cJSON_IsString text_item then valuestring text_item else None),
     name_family = (if cJSON_IsString family then Some [valuestring family] else None),
     name_family_count = (if cJSON_IsString family then 1 else 0),
     name_given = None, name_given_count = 0\<rparr>"
  have unfold: "fhir_parse_human_name json =
     (if cJSON_IsArray given \<and> 0 < cJSON_GetArraySize given then
        (case given_loop (children given)
                (name3\<lparr>name_given := fhir_string_array_create (nat (cJSON_GetArraySize given)),
                       name_given_count := 0\<rparr>) of
           Inl e \<Rightarrow> Inl e
         | Inr name4 \<Rightarrow> Inr (Some name4))
      else Inr (Some name3))"
    using obj
    by (simp add: fhir_parse_human_name_def Let_def store_def fhir_string_array_create_def
        calloc_pointers_def name3_def use_def text_item_def family_def given_def)
  have fam: "name_family_count name3 = (if cJSON_IsString family then 1 else 0)"
    "name_family name3 = (if cJSON_IsString family then Some [valuestring family] else None)"
    by (simp_all add: name3_def)
  show ?thesis
  proof (cases "cJSON_IsArray given \<and> 0 < cJSON_GetArraySize given")
    case False
    have "array_elements given = []"
    proof (cases "cJSON_IsArray given")
      case True
      then have "given = Some (cJSON_Array (array_elements given))"
        by (rule is_array_elements)
      then have "cJSON_GetArraySize given = int (length (array_elements given))"
        using get_array_size_exact [OF bound] by (simp add: given_def)
      with True False show ?thesis by simp
    next
      case False
      then show ?thesis by (rule not_array_elements)
    qed
    then have "filter is_string_item (array_elements given) = []"
      by simp
    moreover have "fhir_parse_human_name json = Inr (Some name3)"
      unfolding unfold by (rule if_not_P [OF False])
    moreover have "name_given_count name3 = 0" "name_givens name3 = []"
      by (simp_all add: name3_def name_givens_def)
    ultimately show ?thesis
      using fam unfolding family_def given_def by simp
  next
    case True
    then have arr: "given = Some (cJSON_Array (array_elements given))"
      by (simp add: is_array_elements)
    define items where "items = array_elements given"
    have arr': "given = Some (cJSON_Array items)"
      using arr by (simp add: items_def)
    have ch: "children given = items"
      by (subst arr') simp
    have sz: "cJSON_GetArraySize given = int (length items)"
      using get_array_size_exact [OF bound] arr' by (simp add: given_def items_def)
    let ?n1 = "name3\<lparr>name_given := fhir_string_array_create (length items),
        name_given_count := 0\<rparr>"
    have "name_given ?n1 = Some (replicate (length items) None)"
      by (simp add: fhir_string_array_create_def calloc_pointers_def)
    moreover have "name_given_count ?n1 + length items \<le>
        length (replicate (length items) (None :: string option))"
      by simp
    ultimately obtain array' where
      run: "given_loop items ?n1 =
         Inr (?n1\<lparr>name_given := Some array',
                name_given_count :=
                  name_given_count ?n1 + length (filter is_string_item items)\<rparr>)"
      and tk: "take (name_given_count ?n1 + length (filter is_string_item items)) array' =
         take (name_given_count ?n1) (replicate (length items) None) @
         map (\<lambda>item. valuestring (Some item)) (filter is_string_item items)"
      using given_loop_result [of ?n1 "replicate (length items) None" items] by blast
    let ?n4 = "?n1\<lparr>name_given := Some array',
        name_given_count := name_given_count ?n1 + length (filter is_string_item items)\<rparr>"
    have res: "fhir_parse_human_name json = Inr (Some ?n4)"
      using True unfold run by (simp add: ch sz)
    have "name_family_count ?n4 = (if cJSON_IsString family then 1 else 0)"
      "name_family ?n4 = (if cJSON_IsString family then Some [valuestring family] else None)"
      "name_given_count ?n4 = length (filter is_string_item items)"
      "name_givens ?n4 = map (\<lambda>item. valuestring (Some item)) (filter is_string_item items)"
      using tk fam by (simp_all add: name_givens_def)
    then show ?thesis
      using res unfolding family_def given_def items_def by blast
  qed
qed

text \<open>
  Claim C10. For an object-shaped document whose \<^verbatim>\<open>given\<close> array, if there is one,
  has a number of elements in the range of \<^verbatim>\<open>int\<close>, \<^verbatim>\<open>fhir_parse_human_name\<close>
  returns a name.
  A string-valued \<^verbatim>\<open>family\<close> field gives \<^verbatim>\<open>family_count = 1\<close> and a one-element
  family array holding that string; an absent or non-string \<^verbatim>\<open>family\<close> leaves
  \<^verbatim>\<open>family_count = 0\<close> and the array null. The given names in use are the string
  elements of the \<^verbatim>\<open>given\<close> array, in order, and \<^verbatim>\<open>given_count\<close> is their number
  (zero when \<^verbatim>\<open>given\<close> is not an array).
\<close>

theorem fhir_parse_human_name_family_and_given:
  assumes "cJSON_IsObject json"
    and "length (array_elements (cJSON_GetObjectItemCaseSensitive json ''given''))
      \<le> 2147483647"
  shows "\<exists>name. fhir_parse_human_name json = Inr (Some name) \<and>
      name_family_count name =
        (if cJSON_IsString (cJSON_GetObjectItemCaseSensitive json ''family'') then 1 else 0) \<and>
      name_family name =
        (if cJSON_IsString (cJSON_GetObjectItemCaseSensitive json ''family'')
         then Some [valuestring (cJSON_GetObjectItemCaseSensitive json ''family'')]
         else None) \<and>
      name_given_count name =
        length (filter is_string_item
          (array_elements (cJSON_GetObjectItemCaseSensitive json ''given''))) \<and>
      name_givens name =
        map (\<lambda>item. valuestring (Some item))
          (filter is_string_item
            (array_elements (cJSON_GetObjectItemCaseSensitive json ''given'')))"
  using assms by (rule parse_human_name_result)

theorem fhir_parse_human_name_family_and_given_witness:
  "cJSON_IsObject (Some example_name_document) \<and>
   length (array_elements
     (cJSON_GetObjectItemCaseSensitive (Some example_name_document) ''given'')) \<le> 2147483647 \<and>
   (\<exists>name. fhir_parse_human_name (Some example_name_document) = Inr (Some name) \<and>
      name_family_count name = 1 \<and>
      name_family name = Some [Some ''Chalmers''] \<and>
      name_given_count name = 2 \<and>
      name_givens name = [Some ''Peter'', Some ''James''])"
proof -
  have obj: "cJSON_IsObject (Some example_name_document)"
    by (simp add: example_name_document_def)
  have b: "length (array_elements
      (cJSON_GetObjectItemCaseSensitive (Some example_name_document) ''given'')) \<le> 2147483647"
    by (simp add: example_name_document_def)
  from fhir_parse_human_name_family_and_given [OF obj b] obtain name where
    "fhir_parse_human_name (Some example_name_document) = Inr (Some name)"
    "name_family_count name =
        (if cJSON_IsString (cJSON_GetObjectItemCaseSensitive (Some example_name_document)
           ''family'') then 1 else 0)"
    "name_family name =
        (if cJSON_IsString (cJSON_GetObjectItemCaseSensitive (Some example_name_document)
           ''family'')
         then Some [valuestring (cJSON_GetObjectItemCaseSensitive (Some example_name_document)
           ''family'')]
         else None)"
    "name_given_count name =
        length (filter is_string_item
          (array_elements (cJSON_GetObjectItemCaseSensitive (Some example_name_document)
             ''given'')))"
    "name_givens name =
        map (\<lambda>item. valuestring (Some item))
          (filter is_string_item
            (array_elements (cJSON_GetObjectItemCaseSensitive (Some example_name_document)
               ''given'')))"
    by blast
  then have "fhir_parse_human_name (Some example_name_document) = Inr (Some name) \<and>
      name_family_count name = 1 \<and>
      name_family name = Some [Some ''Chalmers''] \<and>
      name_given_count name = 2 \<and>
      name_givens name = [Some ''Peter'', Some ''James'']"
    by (simp add: example_name_document_def is_string_item_def)
  then show ?thesis using obj b by blast
qed

subsection \<open>The object-shape requirement\<close>

lemma parse_quantity_None_iff:
  "fhir_parse_quantity json = None \<longleftrightarrow>
     \<not> (cJSON_IsObject json \<and>
        cJSON_IsNumber (cJSON_GetObjectItemCaseSensitive json ''value''))"
  by (simp add: fhir_parse_quantity_def fhir_quantity_create_def Let_def)

lemma parse_codeable_concept_not_object:
  "\<not> cJSON_IsObject json \<Longrightarrow> fhir_parse_codeable_concept json = Inr None"
  by (simp add: fhir_parse_codeable_concept_def)

lemma parse_human_name_not_object:
  "\<not> cJSON_IsObject json \<Longrightarrow> fhir_parse_human_name json = Inr None"
  by (simp add: fhir_parse_human_name_def)

text \<open>On an object neither parser returns null, whatever the size of the arrays.\<close>

lemma parse_codeable_concept_object_not_null:
  "cJSON_IsObject json \<Longrightarrow> fhir_parse_codeable_concept json \<noteq> Inr None"
  by (simp add: fhir_parse_codeable_concept_def fhir_codeable_concept_create_def Let_def
      split: sum.splits)

lemma parse_human_name_object_not_null:
  "cJSON_IsObject json \<Longrightarrow> fhir_parse_human_name json \<noteq> Inr None"
  by (simp add: fhir_parse_human_name_def Let_def store_def fhir_string_array_create_def
      calloc_pointers_def split: sum.splits)

text \<open>
  Claim C7. Each of the four parsers of complex values returns null on a node that is
  not an object (an array, a scalar, null, or a null pointer for a missing node), and
  only there, except that \<^verbatim>\<open>fhir_parse_quantity\<close> also returns null on an object whose
  \<^verbatim>\<open>value\<close> field is absent or not a number. \<^verbatim>\<open>fhir_parse_codeable_concept\<close> and
  \<^verbatim>\<open>fhir_parse_human_name\<close> perform no undefined operation when the array they iterate
  (\<^verbatim>\<open>coding\<close>, \<^verbatim>\<open>given\<close>) has a number of elements in the range of \<^verbatim>\<open>int\<close>.
  (Memory is available in the model, so null through a failed allocation does not
  arise.)
\<close>

theorem complex_parsers_require_object:
  "(fhir_parse_coding json = None \<longleftrightarrow> \<not> cJSON_IsObject json) \<and>
   (fhir_parse_codeable_concept json = Inr None \<longleftrightarrow> \<not> cJSON_IsObject json) \<and>
   (fhir_parse_human_name json = Inr None \<longleftrightarrow> \<not> cJSON_IsObject json) \<and>
   (fhir_parse_quantity json = None \<longleftrightarrow>
      \<not> (cJSON_IsObject json \<and>
         cJSON_IsNumber (cJSON_GetObjectItemCaseSensitive json ''value''))) \<and>
   (length (array_elements (cJSON_GetObjectItemCaseSensitive json ''coding'')) \<le> 2147483647
      \<longrightarrow> (\<exists>r. fhir_parse_codeable_concept json = Inr r)) \<and>
   (length (array_elements (cJSON_GetObjectItemCaseSensitive json ''given'')) \<le> 2147483647
      \<longrightarrow> (\<exists>r. fhir_parse_human_name json = Inr r))"
proof (cases "cJSON_IsObject json")
  case True
  have c: "\<exists>r. fhir_parse_codeable_concept json = Inr r"
    if "length (array_elements (cJSON_GetObjectItemCaseSensitive json ''coding'')) \<le> 2147483647"
    using parse_codeable_concept_object [OF True that] by blast
  have n: "\<exists>r. fhir_parse_human_name json = Inr r"
    if "length (array_elements (cJSON_GetObjectItemCaseSensitive json ''given'')) \<le> 2147483647"
    using parse_human_name_result [OF True that] by blast
  show ?thesis
    using True c n parse_codeable_concept_object_not_null [OF True]
      parse_human_name_object_not_null [OF True]
    by (simp add: parse_coding_None_iff parse_quantity_None_iff)
next
  case False
  then show ?thesis
    by (simp add: parse_coding_None_iff parse_quantity_None_iff
        parse_codeable_concept_not_object parse_human_name_not_object)
qed

theorem complex_parsers_require_object_witness:
  "length (array_elements
     (cJSON_GetObjectItemCaseSensitive (Some example_concept_document) ''coding''))
     \<le> 2147483647 \<and>
   length (array_elements
     (cJSON_GetObjectItemCaseSensitive (Some example_concept_document) ''given''))
     \<le> 2147483647 \<and>
   cJSON_IsObject (Some example_concept_document) \<and>
   fhir_parse_coding (Some example_concept_document) \<noteq> None \<and>
   fhir_parse_codeable_concept (Some example_concept_document) \<noteq> Inr None \<and>
   fhir_parse_human_name (Some example_concept_document) \<noteq> Inr None \<and>
   fhir_parse_quantity (Some example_concept_document) = None \<and>
   (\<exists>r. fhir_parse_codeable_concept (Some example_concept_document) = Inr r) \<and>
   (\<exists>r. fhir_parse_human_name (Some example_concept_document) = Inr r)"
proof -
  have c: "length (array_elements
      (cJSON_GetObjectItemCaseSensitive (Some example_concept_document) ''coding''))
      \<le> 2147483647"
    by (simp add: example_concept_document_def example_coding_items_def)
  have g: "length (array_elements
      (cJSON_GetObjectItemCaseSensitive (Some example_concept_document) ''given''))
      \<le> 2147483647"
    by (simp add: example_concept_document_def)
  have obj: "cJSON_IsObject (Some example_concept_document)"
    by (simp add: example_concept_document_def)
  have v: "\<not> cJSON_IsNumber
      (cJSON_GetObjectItemCaseSensitive (Some example_concept_document) ''value'')"
    by (simp add: example_concept_document_def)
  show ?thesis
    using complex_parsers_require_object [of "Some example_concept_document"] c g obj v
    by simp
qed

subsection \<open>Ownership counting\<close>

lemma heap_ok_empty: "heap_ok empty_heap"
  by (simp add: heap_ok_def empty_heap_def)

lemma set_dead:
  "set (filter (\<lambda>a. cs ! a = None) [0..<length cs]) = {a. a < length cs \<and> cs ! a = None}"
  by auto

lemma heap_ok_iff:
  "heap_ok h \<longleftrightarrow>
     list_all counted (cells h) \<and> distinct (destroyed h) \<and>
     set (destroyed h) = {a. a < length (cells h) \<and> cells h ! a = None}"
  unfolding heap_ok_def set_dead ..

lemma list_all_update: "list_all P xs \<Longrightarrow> P x \<Longrightarrow> list_all P (xs[a := x])"
  unfolding list_all_iff using set_update_subset_insert [of xs a x] by blast

lemma dead_append_live:
  "{a. a < length (cs @ [Some r]) \<and> (cs @ [Some r]) ! a = None} =
   {a. a < length cs \<and> cs ! a = None}"
  by (auto simp: nth_append)

lemma dead_update_live:
  "a < length cs \<Longrightarrow> cs ! a \<noteq> None \<Longrightarrow>
   {b. b < length (cs[a := Some r]) \<and> cs[a := Some r] ! b = None} =
   {b. b < length cs \<and> cs ! b = None}"
  by (auto simp: nth_list_update)

lemma dead_update_dead:
  "a < length cs \<Longrightarrow>
   {b. b < length (cs[a := None]) \<and> cs[a := None] ! b = None} =
   insert a {b. b < length cs \<and> cs ! b = None}"
  by (auto simp: nth_list_update)

lemma heap_ok_create:
  assumes ok: "heap_ok h" and run: "fhir_resource_create h kind i = (r, h')"
  shows "heap_ok h'"
proof (cases "fhir_validate_id i")
  case False
  then have "h' = h" using run
    by (cases i) (simp_all add: fhir_resource_create_def)
  then show ?thesis using ok by simp
next
  case True
  then obtain s where i: "i = Some s" by (cases i) (simp_all add: fhir_validate_id_def)
  have h': "h' = h\<lparr>cells := cells h @
      [Some \<lparr>resource_id = s, resource_kind = kind, ref_count = 1\<rparr>]\<rparr>"
    using run True unfolding i by (simp add: fhir_resource_create_def)
  show ?thesis
    using ok unfolding h' heap_ok_iff
    by (simp add: dead_append_live counted_def del: length_append)
qed

lemma heap_ok_retain:
  assumes ok: "heap_ok h" and run: "fhir_resource_retain h handle = Inr (r, h')"
  shows "heap_ok h'"
proof (cases handle)
  case None
  then show ?thesis using ok run by (simp add: fhir_resource_retain_def)
next
  case (Some a)
  from run obtain res where l: "live h (Some a) = Some res"
    unfolding Some by (cases "live h (Some a)") (simp_all add: fhir_resource_retain_def)
  then have a: "a < length (cells h)" and c: "cells h ! a = Some res"
    by (simp_all add: live_def split: if_splits)
  have h': "h' = h\<lparr>cells := (cells h)[a := Some (res\<lparr>ref_count := ref_count res + 1\<rparr>)]\<rparr>"
    using run l unfolding Some by (simp add: fhir_resource_retain_def)
  have "counted (Some (res\<lparr>ref_count := ref_count res + 1\<rparr>))"
    by (simp add: counted_def)
  then show ?thesis
    using ok a c unfolding h' heap_ok_iff
    by (simp add: dead_update_live list_all_update del: length_list_update)
qed

lemma heap_ok_release:
  assumes ok: "heap_ok h" and run: "fhir_resource_release h handle = Inr h'"
  shows "heap_ok h'"
proof (cases handle)
  case None
  then show ?thesis using ok run by (simp add: fhir_resource_release_def)
next
  case (Some a)
  from run obtain res where l: "live h (Some a) = Some res"
    unfolding Some by (cases "live h (Some a)") (simp_all add: fhir_resource_release_def)
  then have a: "a < length (cells h)" and c: "cells h ! a = Some res"
    by (simp_all add: live_def split: if_splits)
  show ?thesis
  proof (cases "ref_count res - 1 = 0")
    case True
    have h': "h' = h\<lparr>cells := (cells h)[a := None], destroyed := destroyed h @ [a]\<rparr>"
      using run l True unfolding Some by (simp add: fhir_resource_release_def)
    have fresh: "a \<notin> set (destroyed h)"
      using ok c unfolding heap_ok_iff by simp
    have "counted None" by (simp add: counted_def)
    then show ?thesis
      using ok a fresh unfolding h' heap_ok_iff
      by (simp add: dead_update_dead list_all_update del: length_list_update)
  next
    case False
    have h': "h' = h\<lparr>cells := (cells h)[a := Some (res\<lparr>ref_count := ref_count res - 1\<rparr>)]\<rparr>"
      using run l False unfolding Some by (simp add: fhir_resource_release_def)
    have "counted (Some (res\<lparr>ref_count := ref_count res - 1\<rparr>))"
      using False by (simp add: counted_def)
    then show ?thesis
      using ok a c unfolding h' heap_ok_iff
      by (simp add: dead_update_live list_all_update del: length_list_update)
  qed
qed


text \<open>
  Claim C2. From any heap that satisfies the invariant, creating a resource with a valid
  id gives a handle whose count is 1; retaining it returns the same handle and makes the
  count 2; the first release makes the count 1 and runs no destructor; the second
  release destroys the resource, and the destructor has then run on the handle exactly
  once. The invariant, which says that every live resource has a count of at least 1,
  holds after every step.
\<close>

theorem ownership_counting:
  assumes ok: "heap_ok h" and valid: "fhir_validate_id (Some i)"
  shows "\<exists>a h1 h2 h3 h4.
     fhir_resource_create h kind (Some i) = (Some a, h1) \<and>
     fhir_resource_get_ref_count h1 (Some a) = Inr 1 \<and>
     fhir_resource_retain h1 (Some a) = Inr (Some a, h2) \<and>
     fhir_resource_get_ref_count h2 (Some a) = Inr 2 \<and>
     fhir_resource_release h2 (Some a) = Inr h3 \<and>
     fhir_resource_get_ref_count h3 (Some a) = Inr 1 \<and>
     count_list (destroyed h3) a = 0 \<and>
     fhir_resource_release h3 (Some a) = Inr h4 \<and>
     live h4 (Some a) = None \<and>
     count_list (destroyed h4) a = 1 \<and>
     heap_ok h1 \<and> heap_ok h2 \<and> heap_ok h3 \<and> heap_ok h4"
proof -
  let ?a = "length (cells h)"
  let ?r = "\<lparr>resource_id = i, resource_kind = kind, ref_count = 1\<rparr>"
  let ?h1 = "h\<lparr>cells := cells h @ [Some ?r]\<rparr>"
  let ?h2 = "h\<lparr>cells := cells h @ [Some (?r\<lparr>ref_count := 2\<rparr>)]\<rparr>"
  let ?h4 = "h\<lparr>cells := cells h @ [None], destroyed := destroyed h @ [?a]\<rparr>"
  have fresh: "?a \<notin> set (destroyed h)"
    using ok unfolding heap_ok_iff by simp
  then have zero: "count_list (destroyed h) ?a = 0"
    by (simp add: count_list_0_iff)
  have c: "fhir_resource_create h kind (Some i) = (Some ?a, ?h1)"
    using valid by (simp add: fhir_resource_create_def)
  have g1: "fhir_resource_get_ref_count ?h1 (Some ?a) = Inr 1"
    by (simp add: fhir_resource_get_ref_count_def live_def)
  have r1: "fhir_resource_retain ?h1 (Some ?a) = Inr (Some ?a, ?h2)"
    by (simp add: fhir_resource_retain_def live_def)
  have g2: "fhir_resource_get_ref_count ?h2 (Some ?a) = Inr 2"
    by (simp add: fhir_resource_get_ref_count_def live_def)
  have r2: "fhir_resource_release ?h2 (Some ?a) = Inr ?h1"
    by (simp add: fhir_resource_release_def live_def)
  have r3: "fhir_resource_release ?h1 (Some ?a) = Inr ?h4"
    by (simp add: fhir_resource_release_def live_def)
  have l4: "live ?h4 (Some ?a) = None"
    by (simp add: live_def)
  have d3: "count_list (destroyed ?h1) ?a = 0" using zero by simp
  have d4: "count_list (destroyed ?h4) ?a = 1" using zero by simp
  have ok1: "heap_ok ?h1" using heap_ok_create [OF ok c] .
  have ok2: "heap_ok ?h2" using heap_ok_retain [OF ok1 r1] .
  have ok4: "heap_ok ?h4" using heap_ok_release [OF ok1 r3] .
  show ?thesis
    apply (rule exI [of _ ?a])
    apply (rule exI [of _ ?h1])
    apply (rule exI [of _ ?h2])
    apply (rule exI [of _ ?h1])
    apply (rule exI [of _ ?h4])
    apply (intro conjI)
    apply (rule c g1 r1 g2 r2 d3 r3 l4 d4 ok1 ok2 ok4)+
    done
qed

text \<open>The run of the test \<^verbatim>\<open>test_patient_reference_counting\<close>, from the empty heap.\<close>

theorem ownership_counting_witness:
  "heap_ok empty_heap \<and>
   fhir_validate_id (Some ''test-patient-ref'') \<and>
   (\<exists>a h1 h2 h3 h4.
     fhir_resource_create empty_heap Patient (Some ''test-patient-ref'') = (Some a, h1) \<and>
     fhir_resource_get_ref_count h1 (Some a) = Inr 1 \<and>
     fhir_resource_retain h1 (Some a) = Inr (Some a, h2) \<and>
     fhir_resource_get_ref_count h2 (Some a) = Inr 2 \<and>
     fhir_resource_release h2 (Some a) = Inr h3 \<and>
     fhir_resource_get_ref_count h3 (Some a) = Inr 1 \<and>
     count_list (destroyed h3) a = 0 \<and>
     fhir_resource_release h3 (Some a) = Inr h4 \<and>
     live h4 (Some a) = None \<and>
     count_list (destroyed h4) a = 1 \<and>
     heap_ok h1 \<and> heap_ok h2 \<and> heap_ok h3 \<and> heap_ok h4)"
proof -
  have v: "fhir_validate_id (Some ''test-patient-ref'')"
    by (simp add: fhir_validate_id_def id_char_def)
  show ?thesis
    using heap_ok_empty v ownership_counting [OF heap_ok_empty v, of Patient] by blast
qed

end
